theory Spec2Isabelle
  imports Main "HOL-Library.Char_ord" "HOL-Library.List_Lexorder" "HOL-Library.Option_ord"
begin

section \<open>Python text helpers\<close>

text \<open>
  A Python string is modelled as the list of the bytes of its UTF-8 encoding.
  \<open>py_whitespace\<close> lists the encodings of the characters for which \<open>str.isspace\<close>
  holds: the ASCII codes 9 to 13 and 28 to 32, and U+0085, U+00A0, U+1680, U+2000 to
  U+200A, U+2028, U+2029, U+202F, U+205F and U+3000. \<open>str.strip()\<close> removes these
  characters from both ends of a string. No encoding in the list is the beginning of
  another, so at most one of them begins a string, and one of them ends a string exactly
  when the last character of the string is white space.
  \<open>str.lower()\<close> and \<open>str.upper()\<close> are modelled on the letters A to Z and a to z.
\<close>

definition py_whitespace :: "string list" where
  "py_whitespace =
     [[CHR 0x09], [CHR 0x0A], [CHR 0x0B], [CHR 0x0C], [CHR 0x0D],
      [CHR 0x1C], [CHR 0x1D], [CHR 0x1E], [CHR 0x1F], [CHR 0x20],
      [CHR 0xC2, CHR 0x85], [CHR 0xC2, CHR 0xA0], [CHR 0xE1, CHR 0x9A, CHR 0x80],
      [CHR 0xE2, CHR 0x80, CHR 0x80], [CHR 0xE2, CHR 0x80, CHR 0x81],
      [CHR 0xE2, CHR 0x80, CHR 0x82], [CHR 0xE2, CHR 0x80, CHR 0x83],
      [CHR 0xE2, CHR 0x80, CHR 0x84], [CHR 0xE2, CHR 0x80, CHR 0x85],
      [CHR 0xE2, CHR 0x80, CHR 0x86], [CHR 0xE2, CHR 0x80, CHR 0x87],
      [CHR 0xE2, CHR 0x80, CHR 0x88], [CHR 0xE2, CHR 0x80, CHR 0x89],
      [CHR 0xE2, CHR 0x80, CHR 0x8A], [CHR 0xE2, CHR 0x80, CHR 0xA8],
      [CHR 0xE2, CHR 0x80, CHR 0xA9], [CHR 0xE2, CHR 0x80, CHR 0xAF],
      [CHR 0xE2, CHR 0x81, CHR 0x9F], [CHR 0xE3, CHR 0x80, CHR 0x80]]"

text \<open>\<open>lstrip_seqs ws s\<close> removes from the front of \<open>s\<close> every leading copy of a sequence of \<open>ws\<close>.\<close>

function lstrip_seqs :: "string list \<Rightarrow> string \<Rightarrow> string" where
  "lstrip_seqs ws s =
     (case find (\<lambda>w. w \<noteq> [] \<and> take (length w) s = w) ws of
        None \<Rightarrow> s
      | Some w \<Rightarrow> lstrip_seqs ws (drop (length w) s))"
  by pat_completeness auto
termination
proof (relation "measure (\<lambda>(ws, s). length s)")
  show "wf (measure (\<lambda>(ws, s). length s))" by simp
next
  fix ws :: "string list" and s w :: string
  assume "find (\<lambda>w. w \<noteq> [] \<and> take (length w) s = w) ws = Some w"
  then have w: "w \<noteq> []" "take (length w) s = w" by (auto simp: find_Some_iff)
  from w(2) have "length (take (length w) s) = length w" by simp
  then have "length w \<le> length s" by simp
  with w(1) show "((ws, drop (length w) s), (ws, s)) \<in> measure (\<lambda>(ws, s). length s)"
    by (cases w) auto
qed

declare lstrip_seqs.simps [simp del]

definition strip :: "string \<Rightarrow> string" where
  "strip s = rev (lstrip_seqs (map rev py_whitespace) (rev (lstrip_seqs py_whitespace s)))"

definition lower_char :: "char \<Rightarrow> char" where
  "lower_char c =
     (case map_of (zip ''ABCDEFGHIJKLMNOPQRSTUVWXYZ'' ''abcdefghijklmnopqrstuvwxyz'') c of
        Some l \<Rightarrow> l | None \<Rightarrow> c)"

definition lower :: "string \<Rightarrow> string" where
  "lower s = map lower_char s"

definition upper_char :: "char \<Rightarrow> char" where
  "upper_char c =
     (case map_of (zip ''abcdefghijklmnopqrstuvwxyz'' ''ABCDEFGHIJKLMNOPQRSTUVWXYZ'') c of
        Some u \<Rightarrow> u | None \<Rightarrow> c)"

definition upper :: "string \<Rightarrow> string" where
  "upper s = map upper_char s"

definition digit_char :: "nat \<Rightarrow> char" where
  "digit_char n = ''0123456789'' ! n"

fun str_nat :: "nat \<Rightarrow> string" where
  "str_nat n = (if n < 10 then [digit_char n] else str_nat (n div 10) @ [digit_char (n mod 10)])"

declare str_nat.simps [simp del]

definition str_int :: "int \<Rightarrow> string" where
  "str_int i = (if i < 0 then CHR ''-'' # str_nat (nat (- i)) else str_nat (nat i))"

section \<open>The store\<close>

text \<open>
  The program keeps all its state in one SQLite file (\<open>DB_PATH\<close>). The model of that file
  has the catalogue \<open>sqlite_master\<close> (type, name and table of every schema object, in
  creation order), the rows of the four tables of the program with the columns its
  \<open>CREATE TABLE\<close> statements give them, the AUTOINCREMENT counters that SQLite keeps in
  \<open>sqlite_sequence\<close>, and the date \<open>DATE('now')\<close> evaluates to. A TEXT column holds a
  string or NULL (\<open>None\<close>). Row identifiers are unbounded integers.

  \<open>submitted\<close> records every statement handed to \<open>execute\<close>, \<open>executemany\<close> or
  \<open>read_sql_query\<close>: its text and its bound parameters, in order.
\<close>

datatype obj_type = Table | Index | View | Trigger

fun type_name :: "obj_type \<Rightarrow> string" where
  "type_name Table = ''table''"
| "type_name Index = ''index''"
| "type_name View = ''view''"
| "type_name Trigger = ''trigger''"

datatype schema_obj = Obj (otype: obj_type) (oname: string) (tbl_name: string)

datatype sqlval = SNull | SInt int | SText string

record book_row =
  b_id :: int
  title :: "string option"
  author :: "string option"
  genre :: "string option"
  default_location :: "string option"
  tags :: "string option"
  book_notes :: "string option"

record member_row =
  m_id :: int
  m_name :: "string option"
  phone :: "string option"
  email :: "string option"

record location_row =
  l_id :: int
  l_name :: "string option"
  description :: "string option"

record txn_row =
  t_id :: int
  book_id :: "int option"
  member_id :: "int option"
  issue_date :: "string option"
  due_date :: "string option"
  return_date :: "string option"

record db =
  master :: "schema_obj list"
  books :: "book_row list"
  members :: "member_row list"
  locations :: "location_row list"
  transactions :: "txn_row list"
  seq_books :: int
  seq_members :: int
  seq_locations :: int
  seq_transactions :: int
  today :: string
  submitted :: "(string \<times> sqlval list) list"

datatype db_error =
    SyntaxError string
  | NoSuchTable string
  | NoSuchObject obj_type string
  | CannotModifyView string
  | ViewsMayNotBeIndexed
  | AlreadyAnIndexNamed string
  | AlreadyATableNamed string
  | UniqueConstraintFailed string
  | ForeignKeyFailed
  | ForeignKeyMismatch
  | IncorrectBindings
  | ViewRead string

section \<open>The statements of the program\<close>

text \<open>
  One constructor for every SQL text in \<open>app.py\<close>. All but one are string literals of
  the source; \<open>sql_text\<close> gives them with runs of white space written as one blank.
  \<open>Drop\<close> is the statement of \<open>_ensure_is_table\<close>, the only one whose text is
  formatted at run time: \<open>f"DROP {t.upper()} {name}"\<close>.
\<close>

datatype sql =
    PragmaForeignKeys
  | SelectObjectType
  | Drop obj_type string
  | CreateBooks
  | CreateMembers
  | CreateLocations
  | CreateTransactions
  | CreateIxTransOpen
  | CreateIxTransMember
  | InsertOrIgnoreLocation
  | SelectBookOptions
  | SelectMemberOptions
  | SelectLocationOptions
  | CountBooks
  | CountOpen
  | CountTransactions
  | SelectGenres
  | SelectBooksAll
  | SelectBooksOfGenre
  | InsertTransaction
  | SelectOpenIssues
  | UpdateReturnDate
  | SelectHistory
  | InsertBook
  | SelectBooksTable
  | InsertMember
  | SelectMembersTable
  | SelectLocationsTable
  | CreateBooksUniqueIndex
  | InsertOrIgnoreBook
  | ExportBooks
  | ExportMembers
  | ExportLocations

primrec sql_text :: "sql \<Rightarrow> string" where
  "sql_text PragmaForeignKeys = ''PRAGMA foreign_keys = ON''"
| "sql_text SelectObjectType = ''SELECT type FROM sqlite_master WHERE name=?''"
| "sql_text (Drop t name) = ''DROP '' @ upper (type_name t) @ '' '' @ name"
| "sql_text CreateBooks =
     ''CREATE TABLE IF NOT EXISTS books( id INTEGER PRIMARY KEY AUTOINCREMENT, title TEXT, author TEXT, genre TEXT, default_location TEXT, tags TEXT, notes TEXT )''"
| "sql_text CreateMembers =
     ''CREATE TABLE IF NOT EXISTS members( id INTEGER PRIMARY KEY AUTOINCREMENT, name TEXT, phone TEXT, email TEXT )''"
| "sql_text CreateLocations =
     ''CREATE TABLE IF NOT EXISTS locations( id INTEGER PRIMARY KEY AUTOINCREMENT, name TEXT UNIQUE, description TEXT )''"
| "sql_text CreateTransactions =
     ''CREATE TABLE IF NOT EXISTS transactions( id INTEGER PRIMARY KEY AUTOINCREMENT, book_id INTEGER, member_id INTEGER, issue_date TEXT DEFAULT DATE('now'), due_date TEXT, return_date TEXT, FOREIGN KEY(book_id) REFERENCES books(id) ON DELETE CASCADE, FOREIGN KEY(member_id) REFERENCES members(id) ON DELETE CASCADE )''"
| "sql_text CreateIxTransOpen =
     ''CREATE INDEX IF NOT EXISTS ix_trans_open ON transactions(book_id) WHERE return_date IS NULL''"
| "sql_text CreateIxTransMember =
     ''CREATE INDEX IF NOT EXISTS ix_trans_member ON transactions(member_id)''"
| "sql_text InsertOrIgnoreLocation =
     ''INSERT OR IGNORE INTO locations(name, description) VALUES(?, ?)''"
| "sql_text SelectBookOptions =
     ''SELECT id, title, IFNULL(author,'' @ [CHR 0x27, CHR 0x27] @ '') AS author FROM books ORDER BY title''"
| "sql_text SelectMemberOptions = ''SELECT id, name FROM members ORDER BY name''"
| "sql_text SelectLocationOptions = ''SELECT name FROM locations ORDER BY id''"
| "sql_text CountBooks = ''SELECT COUNT(*) AS c FROM books''"
| "sql_text CountOpen = ''SELECT COUNT(*) AS c FROM transactions WHERE return_date IS NULL''"
| "sql_text CountTransactions = ''SELECT COUNT(*) AS c FROM transactions''"
| "sql_text SelectGenres =
     ''SELECT COALESCE(b.genre,'(Uncategorized)') AS Genre, COUNT(*) AS Titles, SUM( EXISTS(SELECT 1 FROM transactions t WHERE t.book_id=b.id AND t.return_date IS NULL) ) AS Titles_Issued_Now FROM books b GROUP BY b.genre ORDER BY Titles DESC, Genre''"
| "sql_text SelectBooksAll =
     ''SELECT id, title AS Title, author AS Author, COALESCE(genre,'(Uncategorized)') AS Genre FROM books ORDER BY title''"
| "sql_text SelectBooksOfGenre =
     ''SELECT id, title AS Title, author AS Author, COALESCE(genre,'(Uncategorized)') AS Genre FROM books WHERE COALESCE(genre,'(Uncategorized)') = ? ORDER BY title''"
| "sql_text InsertTransaction =
     ''INSERT INTO transactions(book_id, member_id, issue_date, due_date) VALUES (?, ?, DATE('now'), ?)''"
| "sql_text SelectOpenIssues =
     ''SELECT t.id AS Txn_ID, b.title AS Title, m.name AS Member, t.issue_date AS Issued_On, t.due_date AS Due_On FROM transactions t JOIN books b ON b.id = t.book_id JOIN members m ON m.id = t.member_id WHERE t.return_date IS NULL ORDER BY t.issue_date DESC''"
| "sql_text UpdateReturnDate =
     ''UPDATE transactions SET return_date = DATE('now') WHERE id = ?''"
| "sql_text SelectHistory =
     ''SELECT b.title AS Title, m.name AS Member, t.issue_date AS Issued_On, t.due_date AS Due_On, t.return_date AS Returned_On FROM transactions t JOIN books b ON b.id = t.book_id JOIN members m ON m.id = t.member_id ORDER BY t.id DESC LIMIT 200''"
| "sql_text InsertBook =
     ''INSERT INTO books(title, author, genre, default_location) VALUES(?, ?, ?, ?)''"
| "sql_text SelectBooksTable =
     ''SELECT id, title, author, genre, default_location FROM books ORDER BY title''"
| "sql_text InsertMember = ''INSERT INTO members(name, phone, email) VALUES(?, ?, ?)''"
| "sql_text SelectMembersTable = ''SELECT id, name, phone, email FROM members ORDER BY name''"
| "sql_text SelectLocationsTable = ''SELECT id, name, description FROM locations ORDER BY id''"
| "sql_text CreateBooksUniqueIndex =
     ''CREATE UNIQUE INDEX IF NOT EXISTS idx_books_title_author ON books(title, author)''"
| "sql_text InsertOrIgnoreBook =
     ''INSERT OR IGNORE INTO books(title, author, genre, default_location) VALUES(?, ?, ?, ?)''"
| "sql_text ExportBooks = ''SELECT * FROM books ORDER BY title''"
| "sql_text ExportMembers = ''SELECT * FROM members ORDER BY name''"
| "sql_text ExportLocations = ''SELECT * FROM locations ORDER BY id''"

text \<open>The number of \<open>?\<close> placeholders of each statement.\<close>

definition placeholders :: "sql \<Rightarrow> nat" where
  "placeholders s =
     (case s of
        SelectObjectType \<Rightarrow> 1
      | InsertOrIgnoreLocation \<Rightarrow> 2
      | SelectBooksOfGenre \<Rightarrow> 1
      | InsertTransaction \<Rightarrow> 3
      | UpdateReturnDate \<Rightarrow> 1
      | InsertBook \<Rightarrow> 4
      | InsertMember \<Rightarrow> 3
      | InsertOrIgnoreBook \<Rightarrow> 4
      | _ \<Rightarrow> 0)"

definition submit :: "sql \<Rightarrow> sqlval list \<Rightarrow> db \<Rightarrow> db" where
  "submit s ps d = d\<lparr>submitted := submitted d @ [(sql_text s, ps)]\<rparr>"

section \<open>The SQL engine\<close>

text \<open>
  What SQLite does with the statements above. SQLite resolves the names in a statement
  without regard to letter case. Tables and views share one name space with indexes
  (a table cannot take the name of an index, nor an index that of a table or view);
  triggers have their own.
\<close>

definition find_table :: "schema_obj list \<Rightarrow> string \<Rightarrow> schema_obj option" where
  "find_table ms n =
     find (\<lambda>ob. (otype ob = Table \<or> otype ob = View) \<and> lower (oname ob) = lower n) ms"

definition find_index :: "schema_obj list \<Rightarrow> string \<Rightarrow> schema_obj option" where
  "find_index ms n = find (\<lambda>ob. otype ob = Index \<and> lower (oname ob) = lower n) ms"

definition is_table :: "db \<Rightarrow> string \<Rightarrow> bool" where
  "is_table d n = (case find_table (master d) n of Some ob \<Rightarrow> otype ob = Table | None \<Rightarrow> False)"

definition is_view :: "db \<Rightarrow> string \<Rightarrow> bool" where
  "is_view d n = (case find_table (master d) n of Some ob \<Rightarrow> otype ob = View | None \<Rightarrow> False)"

definition has_index :: "db \<Rightarrow> string \<Rightarrow> bool" where
  "has_index d n = (find_index (master d) n \<noteq> None)"

text \<open>
  \<open>CREATE TABLE IF NOT EXISTS n\<close>: nothing happens when a table or a view is called
  \<open>n\<close>; an index of that name is an error. A new table is entered in the catalogue
  with the automatic indexes of its UNIQUE columns (\<open>autos\<close>), and the first table with
  an AUTOINCREMENT key brings \<open>sqlite_sequence\<close> with it. The flag of the result says
  whether a table was created.
\<close>

definition create_table_if_not_exists ::
  "string \<Rightarrow> string list \<Rightarrow> schema_obj list \<Rightarrow> db_error + bool \<times> schema_obj list" where
  "create_table_if_not_exists n autos ms =
     (if find_table ms n \<noteq> None then Inr (False, ms)
      else if find_index ms n \<noteq> None then Inl (AlreadyAnIndexNamed n)
      else Inr (True, ms @ [Obj Table n n] @ map (\<lambda>a. Obj Index a n) autos @
             (if find_table ms ''sqlite_sequence'' = None
              then [Obj Table ''sqlite_sequence'' ''sqlite_sequence''] else [])))"

text \<open>
  \<open>CREATE [UNIQUE] INDEX IF NOT EXISTS ix ON tbl\<close>: the table is looked up first
  (it must exist and be no view), then the name: a table or view called \<open>ix\<close> is an
  error, an index called \<open>ix\<close> makes the statement do nothing.
\<close>

definition create_index_if_not_exists ::
  "string \<Rightarrow> string \<Rightarrow> schema_obj list \<Rightarrow> db_error + bool \<times> schema_obj list" where
  "create_index_if_not_exists ix tbl ms =
     (case find_table ms tbl of
        None \<Rightarrow> Inl (NoSuchTable tbl)
      | Some ob \<Rightarrow>
          if otype ob = View then Inl ViewsMayNotBeIndexed
          else if find_table ms ix \<noteq> None then Inl (AlreadyATableNamed ix)
          else if find_index ms ix \<noteq> None then Inr (False, ms)
          else Inr (True, ms @ [Obj Index ix (oname ob)]))"

definition create_books :: "db \<Rightarrow> db_error + db" where
  "create_books d =
     (case create_table_if_not_exists ''books'' [] (master d) of
        Inl e \<Rightarrow> Inl e
      | Inr (created, ms) \<Rightarrow>
          Inr (if created then d\<lparr>master := ms, books := [], seq_books := 0\<rparr> else d))"

definition create_members :: "db \<Rightarrow> db_error + db" where
  "create_members d =
     (case create_table_if_not_exists ''members'' [] (master d) of
        Inl e \<Rightarrow> Inl e
      | Inr (created, ms) \<Rightarrow>
          Inr (if created then d\<lparr>master := ms, members := [], seq_members := 0\<rparr> else d))"

definition create_locations :: "db \<Rightarrow> db_error + db" where
  "create_locations d =
     (case create_table_if_not_exists ''locations'' [''sqlite_autoindex_locations_1''] (master d) of
        Inl e \<Rightarrow> Inl e
      | Inr (created, ms) \<Rightarrow>
          Inr (if created then d\<lparr>master := ms, locations := [], seq_locations := 0\<rparr> else d))"

text \<open>
  The \<open>CREATE TABLE\<close> statement for \<open>transactions\<close> has the column
  \<open>issue_date TEXT DEFAULT DATE('now')\<close>. After \<open>DEFAULT\<close> SQLite accepts a literal, a
  signed number, or an expression in parentheses; \<open>DATE('now')\<close> without parentheses is
  none of them. The statement is rejected when it is prepared (\<open>near "(": syntax error\<close>),
  whether or not a table of that name exists.
\<close>

definition create_transactions :: "db \<Rightarrow> db_error + db" where
  "create_transactions d = Inl (SyntaxError ''near (: syntax error'')"

definition create_index :: "string \<Rightarrow> string \<Rightarrow> db \<Rightarrow> db_error + db" where
  "create_index ix tbl d =
     (case create_index_if_not_exists ix tbl (master d) of
        Inl e \<Rightarrow> Inl e
      | Inr (created, ms) \<Rightarrow> Inr (d\<lparr>master := ms\<rparr>))"

text \<open>
  \<open>DROP TABLE | INDEX | VIEW | TRIGGER n\<close> removes the object of that type and name;
  with a table or a view go the indexes and triggers attached to it, and with a table its
  rows and its counter.
\<close>

definition clear_rows :: "string \<Rightarrow> db \<Rightarrow> db" where
  "clear_rows n d =
     (if lower n = ''books'' then d\<lparr>books := [], seq_books := 0\<rparr>
      else if lower n = ''members'' then d\<lparr>members := [], seq_members := 0\<rparr>
      else if lower n = ''locations'' then d\<lparr>locations := [], seq_locations := 0\<rparr>
      else if lower n = ''transactions'' then d\<lparr>transactions := [], seq_transactions := 0\<rparr>
      else d)"

definition dropped :: "obj_type \<Rightarrow> string \<Rightarrow> schema_obj \<Rightarrow> bool" where
  "dropped ty n ob =
     ((otype ob = ty \<and> lower (oname ob) = lower n) \<or>
      ((ty = Table \<or> ty = View) \<and> (otype ob = Index \<or> otype ob = Trigger) \<and>
        lower (tbl_name ob) = lower n))"

definition drop_object :: "obj_type \<Rightarrow> string \<Rightarrow> db \<Rightarrow> db_error + db" where
  "drop_object ty n d =
     (if find (\<lambda>ob. otype ob = ty \<and> lower (oname ob) = lower n) (master d) = None
      then Inl (NoSuchObject ty n)
      else let d' = d\<lparr>master := filter (\<lambda>ob. \<not> dropped ty n ob) (master d)\<rparr>
           in Inr (if ty = Table then clear_rows n d' else d'))"

text \<open>
  A statement that writes needs its target to be a table; one that reads needs every
  name it mentions to be a table of the model (what a view of that name would return
  is not modelled: \<open>ViewRead\<close>).
\<close>

definition writable :: "db \<Rightarrow> string \<Rightarrow> db_error option" where
  "writable d n =
     (case find_table (master d) n of
        None \<Rightarrow> Some (NoSuchTable n)
      | Some ob \<Rightarrow> if otype ob = View then Some (CannotModifyView n) else None)"

definition readable :: "db \<Rightarrow> string \<Rightarrow> db_error option" where
  "readable d n =
     (case find_table (master d) n of
        None \<Rightarrow> Some (NoSuchTable n)
      | Some ob \<Rightarrow> if otype ob = View then Some (ViewRead n) else None)"

fun reading :: "string list \<Rightarrow> db \<Rightarrow> db_error + db" where
  "reading [] d = Inr d"
| "reading (n # ns) d = (case readable d n of Some e \<Rightarrow> Inl e | None \<Rightarrow> reading ns d)"

text \<open>
  A value bound to a TEXT column is stored as text (an integer in its decimal form) or
  as NULL. An AUTOINCREMENT key takes one more than the largest of the counter and the
  keys in the table; the counter then holds the key, also when \<open>OR IGNORE\<close> discards
  the row.
\<close>

fun text_value :: "sqlval \<Rightarrow> string option" where
  "text_value SNull = None"
| "text_value (SInt i) = Some (str_int i)"
| "text_value (SText s) = Some s"

definition next_rowid :: "int \<Rightarrow> int list \<Rightarrow> int" where
  "next_rowid counter ids = max counter (fold max ids 0) + 1"

text \<open>
  The unique index \<open>idx_books_title_author\<close> of the import: while it is on \<open>books\<close>,
  two rows cannot have the same non-NULL title and the same non-NULL author.
\<close>

definition books_unique :: "db \<Rightarrow> bool" where
  "books_unique d =
     (case find_index (master d) ''idx_books_title_author'' of
        Some ob \<Rightarrow> lower (tbl_name ob) = ''books'' | None \<Rightarrow> False)"

definition book_conflict :: "db \<Rightarrow> string option \<Rightarrow> string option \<Rightarrow> bool" where
  "book_conflict d t a =
     (books_unique d \<and> t \<noteq> None \<and> a \<noteq> None \<and>
      list_ex (\<lambda>b. title b = t \<and> author b = a) (books d))"

definition insert_book :: "bool \<Rightarrow> sqlval list \<Rightarrow> db \<Rightarrow> db_error + db" where
  "insert_book or_ignore ps d =
     (case ps of
        [t, a, g, l] \<Rightarrow>
          (case writable d ''books'' of
             Some e \<Rightarrow> Inl e
           | None \<Rightarrow>
               let rid = next_rowid (seq_books d) (map b_id (books d)) in
               if book_conflict d (text_value t) (text_value a)
               then (if or_ignore then Inr (d\<lparr>seq_books := rid\<rparr>)
                     else Inl (UniqueConstraintFailed ''books.title, books.author''))
               else Inr (d\<lparr>books := books d @
                           [\<lparr>b_id = rid, title = text_value t, author = text_value a,
                             genre = text_value g, default_location = text_value l,
                             tags = None, book_notes = None\<rparr>],
                          seq_books := rid\<rparr>))
      | _ \<Rightarrow> Inl IncorrectBindings)"

definition create_books_unique_index :: "db \<Rightarrow> db_error + db" where
  "create_books_unique_index d =
     (case create_index_if_not_exists ''idx_books_title_author'' ''books'' (master d) of
        Inl e \<Rightarrow> Inl e
      | Inr (created, ms) \<Rightarrow>
          if created \<and>
             \<not> distinct (filter (\<lambda>(t, a). t \<noteq> None \<and> a \<noteq> None)
                           (map (\<lambda>b. (title b, author b)) (books d)))
          then Inl (UniqueConstraintFailed ''books.title, books.author'')
          else Inr (d\<lparr>master := ms\<rparr>))"

definition insert_member :: "sqlval list \<Rightarrow> db \<Rightarrow> db_error + db" where
  "insert_member ps d =
     (case ps of
        [n, p, e] \<Rightarrow>
          (case writable d ''members'' of
             Some err \<Rightarrow> Inl err
           | None \<Rightarrow>
               let rid = next_rowid (seq_members d) (map m_id (members d)) in
               Inr (d\<lparr>members := members d @
                      [\<lparr>m_id = rid, m_name = text_value n, phone = text_value p,
                        email = text_value e\<rparr>],
                     seq_members := rid\<rparr>))
      | _ \<Rightarrow> Inl IncorrectBindings)"

text \<open>The column \<open>name\<close> of \<open>locations\<close> is UNIQUE; the only insert is \<open>OR IGNORE\<close>.\<close>

definition insert_or_ignore_location :: "sqlval list \<Rightarrow> db \<Rightarrow> db_error + db" where
  "insert_or_ignore_location ps d =
     (case ps of
        [n, ds] \<Rightarrow>
          (case writable d ''locations'' of
             Some e \<Rightarrow> Inl e
           | None \<Rightarrow>
               let rid = next_rowid (seq_locations d) (map l_id (locations d)) in
               if text_value n \<noteq> None \<and> list_ex (\<lambda>l. l_name l = text_value n) (locations d)
               then Inr (d\<lparr>seq_locations := rid\<rparr>)
               else Inr (d\<lparr>locations := locations d @
                           [\<lparr>l_id = rid, l_name = text_value n, description = text_value ds\<rparr>],
                          seq_locations := rid\<rparr>))
      | _ \<Rightarrow> Inl IncorrectBindings)"

text \<open>
  \<open>transactions\<close> refers to \<open>books(id)\<close> and \<open>members(id)\<close>, and every connection of
  \<open>get_conn\<close> has \<open>foreign_keys = ON\<close>: an insert needs both parents to be tables and
  to hold the keys it refers to. \<open>issue_date\<close> is \<open>DATE('now')\<close>; \<open>return_date\<close> is
  not among the columns of the insert and is NULL. The program binds integers to
  \<open>book_id\<close> and \<open>member_id\<close> and to the \<open>id\<close> of the update; other bindings are not
  modelled.
\<close>

definition parent :: "db \<Rightarrow> string \<Rightarrow> db_error option" where
  "parent d n =
     (case find_table (master d) n of
        None \<Rightarrow> Some (NoSuchTable n)
      | Some ob \<Rightarrow> if otype ob = View then Some ForeignKeyMismatch else None)"

definition insert_transaction :: "sqlval list \<Rightarrow> db \<Rightarrow> db_error + db" where
  "insert_transaction ps d =
     (case ps of
        [SInt b, SInt m, due] \<Rightarrow>
          (case writable d ''transactions'' of
             Some e \<Rightarrow> Inl e
           | None \<Rightarrow>
              (case parent d ''books'' of
                 Some e \<Rightarrow> Inl e
               | None \<Rightarrow>
                  (case parent d ''members'' of
                     Some e \<Rightarrow> Inl e
                   | None \<Rightarrow>
                       let rid = next_rowid (seq_transactions d) (map t_id (transactions d)) in
                       if b \<in> set (map b_id (books d)) \<and> m \<in> set (map m_id (members d))
                       then Inr (d\<lparr>transactions := transactions d @
                                    [\<lparr>t_id = rid, book_id = Some b, member_id = Some m,
                                      issue_date = Some (today d), due_date = text_value due,
                                      return_date = None\<rparr>],
                                   seq_transactions := rid\<rparr>)
                       else Inl ForeignKeyFailed)))
      | _ \<Rightarrow> Inl IncorrectBindings)"

definition update_return_date :: "sqlval list \<Rightarrow> db \<Rightarrow> db_error + db" where
  "update_return_date ps d =
     (case ps of
        [SInt i] \<Rightarrow>
          (case writable d ''transactions'' of
             Some e \<Rightarrow> Inl e
           | None \<Rightarrow>
               Inr (d\<lparr>transactions :=
                      map (\<lambda>t. if t_id t = i then t\<lparr>return_date := Some (today d)\<rparr> else t)
                        (transactions d)\<rparr>))
      | _ \<Rightarrow> Inl IncorrectBindings)"

text \<open>
  \<open>run\<close> is one statement on the store: \<open>Inl\<close> is the exception SQLite raises (the
  store is then as before), \<open>Inr\<close> the store after the statement. Queries leave the
  store as it is.
\<close>

definition run :: "sql \<Rightarrow> sqlval list \<Rightarrow> db \<Rightarrow> db_error + db" where
  "run s ps d =
     (if length ps \<noteq> placeholders s then Inl IncorrectBindings
      else case s of
        PragmaForeignKeys \<Rightarrow> Inr d
      | SelectObjectType \<Rightarrow> Inr d
      | Drop ty n \<Rightarrow> drop_object ty n d
      | CreateBooks \<Rightarrow> create_books d
      | CreateMembers \<Rightarrow> create_members d
      | CreateLocations \<Rightarrow> create_locations d
      | CreateTransactions \<Rightarrow> create_transactions d
      | CreateIxTransOpen \<Rightarrow> create_index ''ix_trans_open'' ''transactions'' d
      | CreateIxTransMember \<Rightarrow> create_index ''ix_trans_member'' ''transactions'' d
      | InsertOrIgnoreLocation \<Rightarrow> insert_or_ignore_location ps d
      | SelectBookOptions \<Rightarrow> reading [''books''] d
      | SelectMemberOptions \<Rightarrow> reading [''members''] d
      | SelectLocationOptions \<Rightarrow> reading [''locations''] d
      | CountBooks \<Rightarrow> reading [''books''] d
      | CountOpen \<Rightarrow> reading [''transactions''] d
      | CountTransactions \<Rightarrow> reading [''transactions''] d
      | SelectGenres \<Rightarrow> reading [''books'', ''transactions''] d
      | SelectBooksAll \<Rightarrow> reading [''books''] d
      | SelectBooksOfGenre \<Rightarrow> reading [''books''] d
      | InsertTransaction \<Rightarrow> insert_transaction ps d
      | SelectOpenIssues \<Rightarrow> reading [''transactions'', ''books'', ''members''] d
      | UpdateReturnDate \<Rightarrow> update_return_date ps d
      | SelectHistory \<Rightarrow> reading [''transactions'', ''books'', ''members''] d
      | InsertBook \<Rightarrow> insert_book False ps d
      | SelectBooksTable \<Rightarrow> reading [''books''] d
      | InsertMember \<Rightarrow> insert_member ps d
      | SelectMembersTable \<Rightarrow> reading [''members''] d
      | SelectLocationsTable \<Rightarrow> reading [''locations''] d
      | CreateBooksUniqueIndex \<Rightarrow> create_books_unique_index d
      | InsertOrIgnoreBook \<Rightarrow> insert_book True ps d
      | ExportBooks \<Rightarrow> reading [''books''] d
      | ExportMembers \<Rightarrow> reading [''members''] d
      | ExportLocations \<Rightarrow> reading [''locations''] d)"

section \<open>The database helpers of the program\<close>

text \<open>
  A function of the program that touches the store returns what it returns or the
  exception it raises (\<open>Inl\<close>), and the store it leaves behind.
\<close>

type_synonym 'a result = "(db_error + 'a) \<times> db"

definition and_then :: "'a result \<Rightarrow> ('a \<Rightarrow> db \<Rightarrow> 'b result) \<Rightarrow> 'b result" where
  "and_then r f = (case r of (Inl e, d) \<Rightarrow> (Inl e, d) | (Inr x, d) \<Rightarrow> f x d)"

definition cursor_execute :: "sql \<Rightarrow> sqlval list \<Rightarrow> db \<Rightarrow> unit result" where
  "cursor_execute s ps d =
     (case run s ps (submit s ps d) of
        Inl e \<Rightarrow> (Inl e, submit s ps d)
      | Inr d' \<Rightarrow> (Inr (), d'))"

text \<open>\<open>executemany\<close>: the statement once for every row of parameters, up to the first failure.\<close>

fun executemany :: "sql \<Rightarrow> sqlval list list \<Rightarrow> db \<Rightarrow> unit result" where
  "executemany s [] d = (Inr (), d)"
| "executemany s (ps # rest) d =
     (case cursor_execute s ps d of
        (Inl e, d') \<Rightarrow> (Inl e, d')
      | (Inr _, d') \<Rightarrow> executemany s rest d')"

text \<open>
  A \<open>with\<close> block on a connection commits at its end and rolls back on an exception.
  Python's \<open>sqlite3\<close> opens a transaction before the first INSERT or UPDATE only, so
  the CREATE and DROP statements that come before it are already permanent. \<open>saved\<close> is
  the store where the transaction began.
\<close>

definition rollback :: "db \<Rightarrow> 'a result \<Rightarrow> 'a result" where
  "rollback saved r =
     (case r of
        (Inl e, d') \<Rightarrow> (Inl e, saved\<lparr>submitted := submitted d'\<rparr>)
      | (Inr x, d') \<Rightarrow> (Inr x, d'))"

definition get_conn :: "db \<Rightarrow> db" where
  "get_conn d = submit PragmaForeignKeys [] d"

text \<open>
  \<open>fetch_df\<close> gives the store after the query; what the query returns is computed
  where a page uses it. No caller uses the \<open>lastrowid\<close> that \<open>run_sql\<close> returns.
\<close>

definition fetch_df :: "sql \<Rightarrow> sqlval list \<Rightarrow> db \<Rightarrow> unit result" where
  "fetch_df s ps d = cursor_execute s ps (get_conn d)"

definition run_sql :: "sql \<Rightarrow> sqlval list \<Rightarrow> db \<Rightarrow> unit result" where
  "run_sql s ps d = cursor_execute s ps (get_conn d)"

text \<open>
  \<open>_object_type\<close>: the type in the first row of \<open>sqlite_master\<close> whose name is exactly
  \<open>name\<close> (the comparison of the query is case sensitive), on a connection of its own.
\<close>

definition object_type :: "string \<Rightarrow> db \<Rightarrow> obj_type option \<times> db" where
  "object_type name d =
     (map_option otype (find (\<lambda>ob. oname ob = name) (master d)),
      submit SelectObjectType [SText name] d)"

definition ensure_is_table :: "string \<Rightarrow> db \<Rightarrow> unit result" where
  "ensure_is_table name d =
     (case object_type name d of
        (None, d1) \<Rightarrow> (Inr (), d1)
      | (Some t, d1) \<Rightarrow>
          if t \<noteq> Table then cursor_execute (Drop t name) [] d1 else (Inr (), d1))"

definition init_db :: "db \<Rightarrow> unit result" where
  "init_db d =
     and_then (cursor_execute CreateBooks [] (get_conn d)) (\<lambda>_ d.
     and_then (cursor_execute CreateMembers [] d) (\<lambda>_ d.
     and_then (cursor_execute CreateLocations [] d) (\<lambda>_ d.
     and_then (ensure_is_table ''transactions'' d) (\<lambda>_ d.
     and_then (cursor_execute CreateTransactions [] d) (\<lambda>_ d.
     and_then (cursor_execute CreateIxTransOpen [] d) (\<lambda>_ d.
     cursor_execute CreateIxTransMember [] d))))))"

definition compartment :: "int \<Rightarrow> sqlval list" where
  "compartment i =
     [SText (''Compartment '' @ str_int i), SText (''Shelf compartment #'' @ str_int i)]"

definition ensure_default_locations :: "int \<Rightarrow> db \<Rightarrow> unit result" where
  "ensure_default_locations n d =
     and_then (cursor_execute CreateLocations [] (get_conn d)) (\<lambda>_ d1.
       rollback d1 (executemany InsertOrIgnoreLocation (map compartment [1..n]) d1))"

section \<open>Widgets\<close>

text \<open>
  The messages a page shows with \<open>st.success\<close>, \<open>st.error\<close> and \<open>st.info\<close>, and the
  files it offers with \<open>st.download_button\<close> (name and content). The text of
  a message and the separator of a book label contain characters beyond ASCII; they are
  written as their UTF-8 bytes.

  \<open>st.selectbox\<close> returns one of its options, the one the user has picked, and \<open>None\<close>
  when there are no options. The pick is a position in the list; a position past the end
  stands for the last option.
\<close>

datatype ui =
    StSuccess string
  | StError string
  | StInfo string
  | StDownload string "string list list"

definition selectbox :: "'a list \<Rightarrow> nat \<Rightarrow> 'a option" where
  "selectbox options k =
     (if options = [] then None else Some (options ! min k (length options - 1)))"

definition em_dash :: string where
  "em_dash = [CHR 0xE2, CHR 0x80, CHR 0x94]"

definition check_mark_button :: string where
  "check_mark_button = [CHR 0xE2, CHR 0x9C, CHR 0x85]"

definition heavy_check_mark :: string where
  "heavy_check_mark = [CHR 0xE2, CHR 0x9C, CHR 0x94, CHR 0xEF, CHR 0xB8, CHR 0x8F]"

text \<open>\<open>str(x)\<close> and \<open>f"{x}"\<close> of a text that may be \<open>None\<close>.\<close>

fun str_opt :: "string option \<Rightarrow> string" where
  "str_opt None = ''None''"
| "str_opt (Some s) = s"

text \<open>
  \<open>s.strip(" \<emdash>")\<close> of \<open>select_book\<close> removes blanks and dashes from both ends.
  \<open>lstrip_with w\<close> removes leading blanks and leading copies of the byte sequence \<open>w\<close>.
\<close>

function lstrip_with :: "string \<Rightarrow> string \<Rightarrow> string" where
  "lstrip_with w [] = []"
| "lstrip_with w (c # s) =
     (if c = CHR '' '' then lstrip_with w s
      else if w \<noteq> [] \<and> take (length w) (c # s) = w then lstrip_with w (drop (length w) (c # s))
      else c # s)"
  by pat_completeness auto
termination
  by (relation "measure (\<lambda>(w, s). length s)") auto

definition strip_label :: "string \<Rightarrow> string" where
  "strip_label s = rev (lstrip_with (rev em_dash) (rev (lstrip_with em_dash s)))"

text \<open>\<open>options.index(pick)\<close>: the first position that holds the pick.\<close>

fun index_of :: "'a list \<Rightarrow> 'a \<Rightarrow> nat" where
  "index_of [] x = 0"
| "index_of (y # ys) x = (if y = x then 0 else Suc (index_of ys x))"

section \<open>Selection helpers\<close>

text \<open>
  \<open>ORDER BY\<close> a TEXT column sorts NULL first and text by its bytes. Rows with equal keys
  keep their order in the table here.
\<close>

definition book_label :: "book_row \<Rightarrow> string" where
  "book_label b =
     strip_label (str_opt (title b) @ '' '' @ em_dash @ '' '' @
                  (case author b of None \<Rightarrow> [] | Some a \<Rightarrow> a))"

definition select_book :: "nat \<Rightarrow> db \<Rightarrow> ((int \<times> string option) option \<times> ui list) result" where
  "select_book k d =
     and_then (fetch_df SelectBookOptions [] d) (\<lambda>_ d.
       let df = sort_key title (books d); options = map book_label df in
       case selectbox options k of
         None \<Rightarrow>
           (Inr (None, [StInfo ''No books yet. Import or add some on the **Books** page.'']), d)
       | Some pick \<Rightarrow>
           let idx = index_of options pick in
           (Inr (Some (b_id (df ! idx), title (df ! idx)), []), d))"

definition select_member :: "nat \<Rightarrow> db \<Rightarrow> ((int \<times> string option) option \<times> ui list) result" where
  "select_member k d =
     and_then (fetch_df SelectMemberOptions [] d) (\<lambda>_ d.
       let df = sort_key m_name (members d); options = map m_name df in
       case selectbox options k of
         None \<Rightarrow>
           (Inr (None, [StInfo ''No members yet. Import or add some on the **Members** page.'']), d)
       | Some pick \<Rightarrow>
           let idx = index_of options pick in
           (Inr (Some (m_id (df ! idx), options ! idx), []), d))"

definition select_location :: "nat \<Rightarrow> db \<Rightarrow> string option result" where
  "select_location k d =
     and_then (fetch_df SelectLocationOptions [] d) (\<lambda>_ d.
       (Inr (case selectbox (Some [] # map l_name (sort_key l_id (locations d))) k of
               None \<Rightarrow> None | Some v \<Rightarrow> v), d))"

section \<open>Pages\<close>

text \<open>
  A page is run from top to bottom on every interaction. Its arguments are what the
  widgets return in that run: the texts typed, the picks, and for every button whether it
  was the one clicked. The result is the list of messages shown.
\<close>

fun bind_opt :: "string option \<Rightarrow> sqlval" where
  "bind_opt None = SNull"
| "bind_opt (Some s) = SText s"

definition genre_options :: "db \<Rightarrow> string list" where
  "genre_options d =
     ''(All)'' # sort (remdups (map (\<lambda>b. case genre b of None \<Rightarrow> ''(Uncategorized)'' | Some g \<Rightarrow> g)
                                 (books d)))"

definition page_dashboard :: "nat \<Rightarrow> db \<Rightarrow> ui list result" where
  "page_dashboard genre_pick d =
     and_then (fetch_df CountBooks [] d) (\<lambda>_ d.
     and_then (fetch_df CountOpen [] d) (\<lambda>_ d.
     and_then (fetch_df CountTransactions [] d) (\<lambda>_ d.
     and_then (fetch_df SelectGenres [] d) (\<lambda>_ d.
     and_then (case selectbox (genre_options d) genre_pick of
                 None \<Rightarrow> (Inr (), d)
               | Some pick \<Rightarrow>
                   if pick = ''(All)'' then fetch_df SelectBooksAll [] d
                   else fetch_df SelectBooksOfGenre [SText pick] d) (\<lambda>_ d.
       (Inr [], d))))))"

text \<open>
  The rows of the open-issues table: the transactions without a return date, joined with
  their book and their member.
\<close>

definition open_issues :: "db \<Rightarrow> int list" where
  "open_issues d =
     map t_id (rev (sort_key issue_date
       [t. t \<leftarrow> transactions d, return_date t = None,
           b \<leftarrow> books d, Some (b_id b) = book_id t,
           m \<leftarrow> members d, Some (m_id m) = member_id t]))"

definition issue ::
  "(int \<times> string option) option \<Rightarrow> (int \<times> string option) option \<Rightarrow> string option \<Rightarrow> bool \<Rightarrow>
   db \<Rightarrow> ui list result" where
  "issue book mbr due clicked d =
     (case (book, mbr) of
        (Some (bid, book_title), Some (mid, member_name)) \<Rightarrow>
          if clicked then
            and_then (run_sql InsertTransaction [SInt bid, SInt mid, bind_opt due] d) (\<lambda>_ d.
              (Inr [StSuccess (''Issued **'' @ str_opt book_title @ ''** to **'' @
                               str_opt member_name @ ''** '' @ check_mark_button)], d))
          else (Inr [], d)
      | _ \<Rightarrow> (Inr [], d))"

definition mark_returned :: "nat \<Rightarrow> bool \<Rightarrow> db \<Rightarrow> ui list result" where
  "mark_returned txn_pick clicked d =
     (case selectbox (open_issues d) txn_pick of
        None \<Rightarrow> (Inr [], d)
      | Some chosen \<Rightarrow>
          if clicked then
            and_then (run_sql UpdateReturnDate [SInt chosen] d) (\<lambda>_ d.
              (Inr [StSuccess (''Marked as returned '' @ heavy_check_mark)], d))
          else (Inr [], d))"

definition page_issue_return ::
  "nat \<Rightarrow> nat \<Rightarrow> string option \<Rightarrow> bool \<Rightarrow> nat \<Rightarrow> bool \<Rightarrow> db \<Rightarrow> ui list result" where
  "page_issue_return book_pick member_pick due issue_clicked txn_pick mark_clicked d =
     and_then (select_book book_pick d) (\<lambda>(book, info1) d.
     and_then (select_member member_pick d) (\<lambda>(mbr, info2) d.
     and_then (issue book mbr due issue_clicked d) (\<lambda>msg1 d.
     and_then (fetch_df SelectOpenIssues [] d) (\<lambda>_ d.
     and_then (mark_returned txn_pick mark_clicked d) (\<lambda>msg2 d.
     and_then (fetch_df SelectHistory [] d) (\<lambda>_ d.
       (Inr (info1 @ info2 @ msg1 @ msg2), d)))))))"

definition page_books ::
  "string \<Rightarrow> string \<Rightarrow> string \<Rightarrow> nat \<Rightarrow> bool \<Rightarrow> db \<Rightarrow> ui list result" where
  "page_books title_in author_in genre_in location_pick add_clicked d =
     and_then (select_location location_pick d) (\<lambda>default_loc d.
     and_then (if add_clicked \<and> strip title_in \<noteq> [] then
                 and_then (run_sql InsertBook
                             [SText (strip title_in), SText (strip author_in),
                              SText (strip genre_in), bind_opt default_loc] d) (\<lambda>_ d.
                   (Inr [StSuccess ''Book added.''], d))
               else (Inr [], d)) (\<lambda>msg d.
     and_then (fetch_df SelectBooksTable [] d) (\<lambda>_ d. (Inr msg, d))))"

definition page_members :: "string \<Rightarrow> string \<Rightarrow> string \<Rightarrow> bool \<Rightarrow> db \<Rightarrow> ui list result" where
  "page_members name_in phone_in email_in add_clicked d =
     and_then (if add_clicked \<and> strip name_in \<noteq> [] then
                 and_then (run_sql InsertMember
                             [SText (strip name_in), SText (strip phone_in),
                              SText (strip email_in)] d) (\<lambda>_ d.
                   (Inr [StSuccess ''Member added.''], d))
               else (Inr [], d)) (\<lambda>msg d.
     and_then (fetch_df SelectMembersTable [] d) (\<lambda>_ d. (Inr msg, d)))"

definition page_locations :: "string \<Rightarrow> string \<Rightarrow> bool \<Rightarrow> db \<Rightarrow> ui list result" where
  "page_locations name_in desc_in add_clicked d =
     and_then (if add_clicked \<and> strip name_in \<noteq> [] then
                 and_then (run_sql InsertOrIgnoreLocation
                             [SText (strip name_in), SText (strip desc_in)] d) (\<lambda>_ d.
                   (Inr [StSuccess ''Location added.''], d))
               else (Inr [], d)) (\<lambda>msg d.
     and_then (fetch_df SelectLocationsTable [] d) (\<lambda>_ d. (Inr msg, d)))"

section \<open>CSV import and export\<close>

text \<open>
  A pandas DataFrame: the column labels and the rows of cells. A cell read from a CSV
  file is a string, an integer, a float, a boolean or NaN (an empty field); a float is
  kept as the text \<open>str\<close> gives for it, which is all the program asks of a cell. A cell
  read from the store is an integer, a string or \<open>None\<close>.
\<close>

datatype pyval = PNone | PNaN | PInt int | PFloat string | PBool bool | PStr string

datatype dataframe = DataFrame (df_columns: "string list") (df_rows: "pyval list list")

fun py_str :: "pyval \<Rightarrow> string" where
  "py_str PNone = ''None''"
| "py_str PNaN = ''nan''"
| "py_str (PInt i) = str_int i"
| "py_str (PFloat r) = r"
| "py_str (PBool b) = (if b then ''True'' else ''False'')"
| "py_str (PStr s) = s"

text \<open>
  \<open>cols = {c.lower(): c for c in df.columns}\<close> keeps for every lower-case form the last
  column that has it, and \<open>df.rename\<close> gives that column its lower-case form.
\<close>

definition renamed :: "string list \<Rightarrow> string \<Rightarrow> string" where
  "renamed cs c = (if last (filter (\<lambda>x. lower x = lower c) cs) = c then lower c else c)"

text \<open>
  \<open>str(r.get(label, ""))\<close> on a row \<open>r\<close>: the default when no column has the label, the
  cell when one has, and a Series of cells when several have. How pandas prints a
  Series is a parameter, \<open>series_str\<close>.
\<close>

definition row_get :: "string list \<Rightarrow> pyval list \<Rightarrow> string \<Rightarrow> pyval list" where
  "row_get cs r label = map snd (filter (\<lambda>(c, v). c = label) (zip cs r))"

definition get_str :: "(pyval list \<Rightarrow> string) \<Rightarrow> string list \<Rightarrow> pyval list \<Rightarrow> string \<Rightarrow> string" where
  "get_str series_str cs r label =
     (case row_get cs r label of
        [] \<Rightarrow> []
      | [v] \<Rightarrow> py_str v
      | vs \<Rightarrow> series_str vs)"

definition import_rows ::
  "(pyval list \<Rightarrow> string) \<Rightarrow> dataframe \<Rightarrow> string list \<Rightarrow> sqlval list list" where
  "import_rows series_str df wanted =
     (let cs = map (renamed (df_columns df)) (df_columns df) in
      map (\<lambda>r. map (\<lambda>label. SText (strip (get_str series_str cs r label))) wanted)
        (df_rows df))"

definition has_columns :: "dataframe \<Rightarrow> string list \<Rightarrow> bool" where
  "has_columns df needed = (set needed \<subseteq> set (map lower (df_columns df)))"

definition import_books :: "(pyval list \<Rightarrow> string) \<Rightarrow> dataframe \<Rightarrow> db \<Rightarrow> ui list result" where
  "import_books series_str df d =
     (if \<not> has_columns df [''title'', ''author'', ''genre'', ''default_location'']
      then (Inr [StError ''Books CSV missing required columns.''], d)
      else
        let rows = import_rows series_str df [''title'', ''author'', ''genre'', ''default_location'']
        in
        and_then (cursor_execute CreateBooksUniqueIndex [] (get_conn d)) (\<lambda>_ d1.
        and_then (rollback d1 (executemany InsertOrIgnoreBook rows d1)) (\<lambda>_ d2.
          (Inr [StSuccess (''Imported '' @ str_nat (length rows) @
                           '' books (existing titles skipped).'')], d2))))"

definition import_members :: "(pyval list \<Rightarrow> string) \<Rightarrow> dataframe \<Rightarrow> db \<Rightarrow> ui list result" where
  "import_members series_str df d =
     (if \<not> has_columns df [''name'', ''phone'', ''email'']
      then (Inr [StError ''Members CSV missing required columns.''], d)
      else
        let rows = import_rows series_str df [''name'', ''phone'', ''email''];
            d1 = get_conn d
        in
        and_then (rollback d1 (executemany InsertMember rows d1)) (\<lambda>_ d2.
          (Inr [StSuccess (''Imported '' @ str_nat (length rows) @ '' members.'')], d2)))"

definition import_locations :: "(pyval list \<Rightarrow> string) \<Rightarrow> dataframe \<Rightarrow> db \<Rightarrow> ui list result" where
  "import_locations series_str df d =
     (if \<not> has_columns df [''name'', ''description'']
      then (Inr [StError ''Locations CSV missing required columns.''], d)
      else
        let rows = import_rows series_str df [''name'', ''description''];
            d1 = get_conn d
        in
        and_then (rollback d1 (executemany InsertOrIgnoreLocation rows d1)) (\<lambda>_ d2.
          (Inr [StSuccess (''Imported '' @ str_nat (length rows) @
                           '' locations (duplicates ignored).'')], d2)))"

text \<open>
  Export: the table as a DataFrame, written by \<open>to_csv(index=False)\<close>. A CSV file is
  taken as its fields, the header first; quoting is not modelled. \<open>None\<close> and NaN are
  written as the empty field.
\<close>

fun cell :: "string option \<Rightarrow> pyval" where
  "cell None = PNone"
| "cell (Some s) = PStr s"

fun csv_field :: "pyval \<Rightarrow> string" where
  "csv_field PNone = []"
| "csv_field PNaN = []"
| "csv_field v = py_str v"

definition to_csv :: "dataframe \<Rightarrow> string list list" where
  "to_csv df = df_columns df # map (map csv_field) (df_rows df)"

definition books_frame :: "db \<Rightarrow> dataframe" where
  "books_frame d =
     DataFrame [''id'', ''title'', ''author'', ''genre'', ''default_location'', ''tags'', ''notes'']
       (map (\<lambda>b. [PInt (b_id b), cell (title b), cell (author b), cell (genre b),
                   cell (default_location b), cell (tags b), cell (book_notes b)])
          (sort_key title (books d)))"

definition members_frame :: "db \<Rightarrow> dataframe" where
  "members_frame d =
     DataFrame [''id'', ''name'', ''phone'', ''email'']
       (map (\<lambda>m. [PInt (m_id m), cell (m_name m), cell (phone m), cell (email m)])
          (sort_key m_name (members d)))"

definition locations_frame :: "db \<Rightarrow> dataframe" where
  "locations_frame d =
     DataFrame [''id'', ''name'', ''description'']
       (map (\<lambda>l. [PInt (l_id l), cell (l_name l), cell (description l)])
          (sort_key l_id (locations d)))"

definition export_books :: "db \<Rightarrow> ui list result" where
  "export_books d =
     and_then (fetch_df ExportBooks [] d) (\<lambda>_ d.
       (Inr [StDownload ''books.csv'' (to_csv (books_frame d))], d))"

definition export_members :: "db \<Rightarrow> ui list result" where
  "export_members d =
     and_then (fetch_df ExportMembers [] d) (\<lambda>_ d.
       (Inr [StDownload ''members.csv'' (to_csv (members_frame d))], d))"

definition export_locations :: "db \<Rightarrow> ui list result" where
  "export_locations d =
     and_then (fetch_df ExportLocations [] d) (\<lambda>_ d.
       (Inr [StDownload ''locations.csv'' (to_csv (locations_frame d))], d))"

text \<open>
  \<open>pd.read_csv\<close> on the fields of a file: the first line gives the column labels, an
  empty field and the other default markers of a missing value are read as NaN, and a
  file without a line raises (\<open>None\<close>). Any other field is read here as its text. The
  import asks a cell only for its \<open>str\<close>, so this is what pandas gives for a field it
  reads as text, as a boolean, or as an integer written in canonical form in a column
  without missing values; other number-like fields are outside the model.
\<close>

definition na_values :: "string list" where
  "na_values =
     [[], ''#N/A'', ''#N/A N/A'', ''#NA'', ''-1.#IND'', ''-1.#QNAN'', ''-NaN'', ''-nan'',
      ''1.#IND'', ''1.#QNAN'', ''<NA>'', ''N/A'', ''NA'', ''NULL'', ''NaN'', ''None'', ''n/a'',
      ''nan'', ''null'']"

definition read_csv :: "string list list \<Rightarrow> dataframe option" where
  "read_csv csv =
     (case csv of
        [] \<Rightarrow> None
      | header # lines \<Rightarrow>
          Some (DataFrame header
                  (map (map (\<lambda>f. if f \<in> set na_values then PNaN else PStr f)) lines)))"

definition repair :: "bool \<Rightarrow> db \<Rightarrow> ui list result" where
  "repair clicked d =
     (if clicked then
        and_then (init_db d) (\<lambda>_ d.
        and_then (ensure_default_locations 45 d) (\<lambda>_ d.
          (Inr [StSuccess ''Repair done.''], d)))
      else (Inr [], d))"

definition uploaded ::
  "(dataframe \<Rightarrow> db \<Rightarrow> ui list result) \<Rightarrow> dataframe option \<Rightarrow> db \<Rightarrow> ui list result" where
  "uploaded importer up d = (case up of None \<Rightarrow> (Inr [], d) | Some df \<Rightarrow> importer df d)"

definition clicked_export :: "(db \<Rightarrow> ui list result) \<Rightarrow> bool \<Rightarrow> db \<Rightarrow> ui list result" where
  "clicked_export export clicked d = (if clicked then export d else (Inr [], d))"

definition page_import_export ::
  "(pyval list \<Rightarrow> string) \<Rightarrow> bool \<Rightarrow> dataframe option \<Rightarrow> dataframe option \<Rightarrow> dataframe option \<Rightarrow>
   bool \<Rightarrow> bool \<Rightarrow> bool \<Rightarrow> db \<Rightarrow> ui list result" where
  "page_import_export series_str repair_clicked up_books up_members up_locations
     books_clicked members_clicked locations_clicked d =
     and_then (repair repair_clicked d) (\<lambda>m1 d.
     and_then (uploaded (import_books series_str) up_books d) (\<lambda>m2 d.
     and_then (uploaded (import_members series_str) up_members d) (\<lambda>m3 d.
     and_then (uploaded (import_locations series_str) up_locations d) (\<lambda>m4 d.
     and_then (clicked_export export_books books_clicked d) (\<lambda>m5 d.
     and_then (clicked_export export_members members_clicked d) (\<lambda>m6 d.
     and_then (clicked_export export_locations locations_clicked d) (\<lambda>m7 d.
       (Inr (m1 @ m2 @ m3 @ m4 @ m5 @ m6 @ m7), d))))))))"

section \<open>The program\<close>

text \<open>
  \<open>main\<close> initialises the schema, seeds the 45 default locations and shows the page
  picked in the sidebar. A page is given with what its widgets return.
\<close>

datatype page =
    Dashboard nat
  | IssueReturn nat nat "string option" bool nat bool
  | Books string string string nat bool
  | Members string string string bool
  | Locations string string bool
  | ImportExport bool "dataframe option" "dataframe option" "dataframe option" bool bool bool

fun show_page :: "(pyval list \<Rightarrow> string) \<Rightarrow> page \<Rightarrow> db \<Rightarrow> ui list result" where
  "show_page series_str (Dashboard g) d = page_dashboard g d"
| "show_page series_str (IssueReturn b m due ic t mc) d = page_issue_return b m due ic t mc d"
| "show_page series_str (Books t a g l c) d = page_books t a g l c d"
| "show_page series_str (Members n p e c) d = page_members n p e c d"
| "show_page series_str (Locations n ds c) d = page_locations n ds c d"
| "show_page series_str (ImportExport r ub um ul cb cm cl) d =
     page_import_export series_str r ub um ul cb cm cl d"

definition main :: "(pyval list \<Rightarrow> string) \<Rightarrow> page \<Rightarrow> db \<Rightarrow> ui list result" where
  "main series_str pg d =
     and_then (init_db d) (\<lambda>_ d.
     and_then (ensure_default_locations 45 d) (\<lambda>_ d.
       show_page series_str pg d))"

text \<open>
  An operation on the store is a run of the whole program, of one page, or of one of
  the two schema functions. \<open>perform\<close> gives the store after the operation, which took
  place on the day \<open>day\<close>.
\<close>

datatype operation =
    Main page
  | Page page
  | InitDb
  | EnsureDefaultLocations int

fun outcome :: "(pyval list \<Rightarrow> string) \<Rightarrow> operation \<Rightarrow> db \<Rightarrow> ui list result" where
  "outcome series_str (Main pg) d = main series_str pg d"
| "outcome series_str (Page pg) d = show_page series_str pg d"
| "outcome series_str InitDb d = and_then (init_db d) (\<lambda>_ d. (Inr [], d))"
| "outcome series_str (EnsureDefaultLocations n) d =
     and_then (ensure_default_locations n d) (\<lambda>_ d. (Inr [], d))"

definition perform :: "(pyval list \<Rightarrow> string) \<Rightarrow> string \<Rightarrow> operation \<Rightarrow> db \<Rightarrow> db" where
  "perform series_str day op d = snd (outcome series_str op (d\<lparr>today := day\<rparr>))"

fun perform_all :: "(pyval list \<Rightarrow> string) \<Rightarrow> (string \<times> operation) list \<Rightarrow> db \<Rightarrow> db" where
  "perform_all series_str [] d = d"
| "perform_all series_str ((day, op) # rest) d =
     perform_all series_str rest (perform series_str day op d)"

section \<open>Example stores\<close>

text \<open>
  \<open>fresh_db\<close> is a new, empty database file. \<open>library_db\<close> is a store with the four
  tables, one book, one member, one location and one open transaction.
\<close>

definition fresh_db :: db where
  "fresh_db =
     \<lparr>master = [], books = [], members = [], locations = [], transactions = [],
      seq_books = 0, seq_members = 0, seq_locations = 0, seq_transactions = 0,
      today = ''2026-01-05'', submitted = []\<rparr>"

definition library_db :: db where
  "library_db =
     \<lparr>master =
        [Obj Table ''books'' ''books'', Obj Table ''sqlite_sequence'' ''sqlite_sequence'',
         Obj Table ''members'' ''members'', Obj Table ''locations'' ''locations'',
         Obj Index ''sqlite_autoindex_locations_1'' ''locations'',
         Obj Table ''transactions'' ''transactions''],
      books =
        [\<lparr>b_id = 1, title = Some ''Dune'', author = Some ''Herbert'', genre = Some ''SF'',
          default_location = Some ''Compartment 1'', tags = None, book_notes = None\<rparr>],
      members = [\<lparr>m_id = 1, m_name = Some ''Ann'', phone = Some ''555'', email = Some []\<rparr>],
      locations =
        [\<lparr>l_id = 1, l_name = Some ''Compartment 1'',
          description = Some ''Shelf compartment #1''\<rparr>],
      transactions =
        [\<lparr>t_id = 1, book_id = Some 1, member_id = Some 1, issue_date = Some ''2026-01-02'',
          due_date = None, return_date = None\<rparr>],
      seq_books = 1, seq_members = 1, seq_locations = 1, seq_transactions = 1,
      today = ''2026-01-05'', submitted = []\<rparr>"

text \<open>
  \<open>dune_db\<close> is a store with the four tables and one book, as the Add Book form
  leaves it when only the title is filled in: author, genre and default location are the
  empty string.
\<close>

definition dune_db :: db where
  "dune_db =
     \<lparr>master =
        [Obj Table ''books'' ''books'', Obj Table ''sqlite_sequence'' ''sqlite_sequence'',
         Obj Table ''members'' ''members'', Obj Table ''locations'' ''locations'',
         Obj Index ''sqlite_autoindex_locations_1'' ''locations'',
         Obj Table ''transactions'' ''transactions''],
      books =
        [\<lparr>b_id = 1, title = Some ''Dune'', author = Some [], genre = Some [],
          default_location = Some [], tags = None, book_notes = None\<rparr>],
      members = [], locations = [], transactions = [],
      seq_books = 1, seq_members = 0, seq_locations = 0, seq_transactions = 0,
      today = ''2026-01-05'', submitted = []\<rparr>"


section \<open>Basic facts\<close>

lemma submit_fields [simp]:
  "master (submit s ps d) = master d"
  "books (submit s ps d) = books d"
  "members (submit s ps d) = members d"
  "locations (submit s ps d) = locations d"
  "transactions (submit s ps d) = transactions d"
  "seq_books (submit s ps d) = seq_books d"
  "seq_members (submit s ps d) = seq_members d"
  "seq_locations (submit s ps d) = seq_locations d"
  "seq_transactions (submit s ps d) = seq_transactions d"
  "today (submit s ps d) = today d"
  "submitted (submit s ps d) = submitted d @ [(sql_text s, ps)]"
  by (simp_all add: submit_def)

lemma get_conn_fields [simp]:
  "master (get_conn d) = master d"
  "books (get_conn d) = books d"
  "members (get_conn d) = members d"
  "locations (get_conn d) = locations d"
  "transactions (get_conn d) = transactions d"
  "seq_books (get_conn d) = seq_books d"
  "seq_members (get_conn d) = seq_members d"
  "seq_locations (get_conn d) = seq_locations d"
  "seq_transactions (get_conn d) = seq_transactions d"
  "today (get_conn d) = today d"
  by (simp_all add: get_conn_def)

lemma and_then_simps [simp]:
  "and_then (Inl e, d) f = (Inl e, d)"
  "and_then (Inr x, d) f = f x d"
  by (simp_all add: and_then_def)

lemma is_table_submit [simp]: "is_table (submit s ps d) n = is_table d n"
  by (simp add: is_table_def)

lemma is_table_get_conn [simp]: "is_table (get_conn d) n = is_table d n"
  by (simp add: get_conn_def)

lemma readable_table: "is_table d n \<Longrightarrow> readable d n = None"
  by (auto simp: readable_def is_table_def split: option.splits)

lemma writable_table: "is_table d n \<Longrightarrow> writable d n = None"
  by (auto simp: writable_def is_table_def split: option.splits)

lemma reading_tables: "\<forall>n \<in> set ns. is_table d n \<Longrightarrow> reading ns d = Inr d"
  by (induction ns) (auto simp: readable_table)

section \<open>Import of a file without the required columns\<close>

text \<open>
  Claim C9. When the columns of an uploaded file, compared in lower case, do not
  include every required column of its table, the import shows the validation error of
  that table and returns the store exactly as it was: no statement is submitted and no
  row is inserted. This holds for books, members and locations.
\<close>

theorem import_rejects_missing_columns:
  "(\<not> has_columns df [''title'', ''author'', ''genre'', ''default_location''] \<longrightarrow>
      import_books series_str df d = (Inr [StError ''Books CSV missing required columns.''], d)) \<and>
   (\<not> has_columns df [''name'', ''phone'', ''email''] \<longrightarrow>
      import_members series_str df d = (Inr [StError ''Members CSV missing required columns.''], d)) \<and>
   (\<not> has_columns df [''name'', ''description''] \<longrightarrow>
      import_locations series_str df d =
        (Inr [StError ''Locations CSV missing required columns.''], d))"
  by (simp add: import_books_def import_members_def import_locations_def)

theorem import_rejects_missing_columns_witness:
  "\<not> has_columns (DataFrame [''Title'', ''AUTHOR'', ''genre''] [[PStr ''Dune'', PStr ''Herbert'', PStr ''SF'']])
       [''title'', ''author'', ''genre'', ''default_location''] \<and>
   import_books (\<lambda>_. []) (DataFrame [''Title'', ''AUTHOR'', ''genre''] [[PStr ''Dune'', PStr ''Herbert'', PStr ''SF'']])
       library_db = (Inr [StError ''Books CSV missing required columns.''], library_db) \<and>
   \<not> has_columns (DataFrame [''Name'', ''Phone''] [[PStr ''Bob'', PInt 5]]) [''name'', ''phone'', ''email''] \<and>
   import_members (\<lambda>_. []) (DataFrame [''Name'', ''Phone''] [[PStr ''Bob'', PInt 5]]) library_db =
       (Inr [StError ''Members CSV missing required columns.''], library_db) \<and>
   \<not> has_columns (DataFrame [''name''] [[PStr ''Attic'']]) [''name'', ''description''] \<and>
   import_locations (\<lambda>_. []) (DataFrame [''name''] [[PStr ''Attic'']]) library_db =
       (Inr [StError ''Locations CSV missing required columns.''], library_db)"
  using import_rejects_missing_columns
    [of "DataFrame [''Title'', ''AUTHOR'', ''genre''] [[PStr ''Dune'', PStr ''Herbert'', PStr ''SF'']]"
        "\<lambda>_. []" library_db]
    import_rejects_missing_columns
    [of "DataFrame [''Name'', ''Phone''] [[PStr ''Bob'', PInt 5]]" "\<lambda>_. []" library_db]
    import_rejects_missing_columns
    [of "DataFrame [''name''] [[PStr ''Attic'']]" "\<lambda>_. []" library_db]
  by (simp add: has_columns_def lower_def lower_char_def)

section \<open>The Add Location form\<close>

lemma page_locations_existing:
  assumes "is_table d ''locations''" "strip name_in \<noteq> []"
    "Some (strip name_in) \<in> l_name ` set (locations d)"
  shows "fst (page_locations name_in desc_in True d) = Inr [StSuccess ''Location added.'']"
    and "locations (snd (page_locations name_in desc_in True d)) = locations d"
  using assms
  by (auto simp: page_locations_def run_sql_def fetch_df_def cursor_execute_def run_def
      placeholders_def insert_or_ignore_location_def writable_def readable_def is_table_def
      list_ex_iff Let_def image_iff split: option.splits)

lemma page_locations_new_rows:
  "l \<in> set (locations (snd (page_locations name_in desc_in clicked d))) \<Longrightarrow>
   l \<in> set (locations d) \<or> (l_name l = Some (strip name_in) \<and> strip name_in \<noteq> [])"
  by (auto simp: page_locations_def run_sql_def fetch_df_def cursor_execute_def run_def
      placeholders_def insert_or_ignore_location_def writable_def readable_def
      Let_def and_then_def split: option.splits if_splits sum.splits prod.splits)

text \<open>
  Claim C10. Trimming is \<open>str.strip()\<close>, which removes every white-space character of
  Python from both ends, the no-break space and the other Unicode spaces included.
  When the locations table exists and the name typed in the Add Location
  form is not blank after trimming and is, trimmed, the name of an existing location, a
  click on the button shows the success message and leaves the rows of the table as they
  were: no row is added and no description is overwritten. And whatever is typed and
  whether or not the button is clicked, every row of the table after the page has run was
  there before, or carries the trimmed name of the form, which is then not blank.
\<close>

theorem add_location_form:
  "(is_table d ''locations'' \<and> strip name_in \<noteq> [] \<and>
    Some (strip name_in) \<in> l_name ` set (locations d) \<longrightarrow>
      fst (page_locations name_in desc_in True d) = Inr [StSuccess ''Location added.''] \<and>
      locations (snd (page_locations name_in desc_in True d)) = locations d) \<and>
   (\<forall>l \<in> set (locations (snd (page_locations name_in desc_in clicked d))).
      l \<in> set (locations d) \<or> (l_name l = Some (strip name_in) \<and> strip name_in \<noteq> []))"
  using page_locations_existing page_locations_new_rows by blast

theorem add_location_form_witness:
  "is_table library_db ''locations'' \<and>
   strip ([CHR 0xC2, CHR 0xA0] @ '' Compartment 1 '' @ [CHR 0xC2, CHR 0xA0]) \<noteq> [] \<and>
   Some (strip ([CHR 0xC2, CHR 0xA0] @ '' Compartment 1 '' @ [CHR 0xC2, CHR 0xA0]))
     \<in> l_name ` set (locations library_db) \<and>
   fst (page_locations ([CHR 0xC2, CHR 0xA0] @ '' Compartment 1 '' @ [CHR 0xC2, CHR 0xA0])
          ''other text'' True library_db) = Inr [StSuccess ''Location added.''] \<and>
   locations (snd (page_locations ([CHR 0xC2, CHR 0xA0] @ '' Compartment 1 '' @ [CHR 0xC2, CHR 0xA0])
          ''other text'' True library_db)) = locations library_db \<and>
   locations (snd (page_locations ('' '' @ [CHR 0xC2, CHR 0xA0, CHR 0x09]) ''blank name'' True
          library_db)) = locations library_db"
proof -
  have s: "strip ([CHR 0xC2, CHR 0xA0] @ '' Compartment 1 '' @ [CHR 0xC2, CHR 0xA0]) =
      ''Compartment 1''"
    by (simp add: strip_def py_whitespace_def lstrip_seqs.simps)
  have h: "is_table library_db ''locations'' \<and>
      strip ([CHR 0xC2, CHR 0xA0] @ '' Compartment 1 '' @ [CHR 0xC2, CHR 0xA0]) \<noteq> [] \<and>
      Some (strip ([CHR 0xC2, CHR 0xA0] @ '' Compartment 1 '' @ [CHR 0xC2, CHR 0xA0]))
        \<in> l_name ` set (locations library_db)"
    unfolding s
    by (simp add: is_table_def find_table_def library_db_def lower_def lower_char_def)
  have e: "strip ('' '' @ [CHR 0xC2, CHR 0xA0, CHR 0x09]) = []"
    by (simp add: strip_def py_whitespace_def lstrip_seqs.simps)
  have "\<forall>l \<in> set (locations (snd (page_locations ('' '' @ [CHR 0xC2, CHR 0xA0, CHR 0x09])
          ''blank name'' True library_db))). l \<in> set (locations library_db)"
    using add_location_form [of library_db "'' '' @ [CHR 0xC2, CHR 0xA0, CHR 0x09]"
        "''blank name''" True] e by simp
  moreover have "locations (snd (page_locations ('' '' @ [CHR 0xC2, CHR 0xA0, CHR 0x09])
      ''blank name'' True library_db)) = locations library_db"
    unfolding page_locations_def e
    by (simp add: fetch_df_def cursor_execute_def run_def placeholders_def readable_def
        find_table_def library_db_def lower_def lower_char_def get_conn_def submit_def)
  ultimately have b: "locations (snd (page_locations ('' '' @ [CHR 0xC2, CHR 0xA0, CHR 0x09])
      ''blank name'' True library_db)) = locations library_db"
    by simp
  from h b add_location_form
    [of library_db "[CHR 0xC2, CHR 0xA0] @ '' Compartment 1 '' @ [CHR 0xC2, CHR 0xA0]"
      "''other text''" True]
  show ?thesis by blast
qed

section \<open>Issuing a book\<close>

lemma is_table_updates [simp]:
  "is_table (d\<lparr>books := bs\<rparr>) n = is_table d n"
  "is_table (d\<lparr>members := ms\<rparr>) n = is_table d n"
  "is_table (d\<lparr>locations := ls\<rparr>) n = is_table d n"
  "is_table (d\<lparr>transactions := ts\<rparr>) n = is_table d n"
  "is_table (d\<lparr>seq_books := i\<rparr>) n = is_table d n"
  "is_table (d\<lparr>seq_members := i\<rparr>) n = is_table d n"
  "is_table (d\<lparr>seq_locations := i\<rparr>) n = is_table d n"
  "is_table (d\<lparr>seq_transactions := i\<rparr>) n = is_table d n"
  "is_table (d\<lparr>today := day\<rparr>) n = is_table d n"
  "is_table (d\<lparr>submitted := sub\<rparr>) n = is_table d n"
  by (simp_all add: is_table_def)

lemma parent_table: "is_table d n \<Longrightarrow> parent d n = None"
  by (auto simp: parent_def is_table_def split: option.splits)

lemma index_of_less: "x \<in> set xs \<Longrightarrow> index_of xs x < length xs"
  by (induction xs) auto

lemma selectbox_member: "selectbox xs k = Some x \<Longrightarrow> x \<in> set xs"
proof -
  assume a: "selectbox xs k = Some x"
  then have ne: "xs \<noteq> []" by (auto simp: selectbox_def split: if_splits)
  then have "min k (length xs - 1) < length xs" by (cases xs) auto
  then have "xs ! min k (length xs - 1) \<in> set xs" by (rule nth_mem)
  with a ne show ?thesis by (simp add: selectbox_def)
qed

lemma selectbox_nonempty: "xs \<noteq> [] \<Longrightarrow> \<exists>x. selectbox xs k = Some x"
  by (simp add: selectbox_def)

lemma fetch_df_tables:
  "run s ps (submit s ps (get_conn d)) = Inr (submit s ps (get_conn d)) \<Longrightarrow>
   fetch_df s ps d = (Inr (), submit s ps (get_conn d))"
  by (simp add: fetch_df_def cursor_execute_def)

lemma select_book_some:
  assumes "is_table d ''books''" "books d \<noteq> []"
  shows "\<exists>b \<in> set (books d). select_book k d =
           (Inr (Some (b_id b, title b), []), submit SelectBookOptions [] (get_conn d))"
proof -
  let ?df = "sort_key title (books d)"
  let ?opts = "map book_label ?df"
  have len: "length ?opts = length (books d)" by simp
  have ne: "?opts \<noteq> []" using assms(2) len by (metis length_0_conv)
  define pick where "pick = ?opts ! min k (length ?opts - 1)"
  have p: "selectbox ?opts k = Some pick" using ne by (simp add: selectbox_def pick_def)
  have "pick \<in> set ?opts" using p by (rule selectbox_member)
  then have "index_of ?opts pick < length ?opts" by (rule index_of_less)
  then have "index_of ?opts pick < length ?df" by simp
  then have "?df ! index_of ?opts pick \<in> set ?df" by (rule nth_mem)
  then have mem: "?df ! index_of ?opts pick \<in> set (books d)" by simp
  have f: "fetch_df SelectBookOptions [] d = (Inr (), submit SelectBookOptions [] (get_conn d))"
    using assms(1) by (simp add: fetch_df_tables run_def placeholders_def readable_table)
  have "select_book k d =
      (Inr (Some (b_id (?df ! index_of ?opts pick), title (?df ! index_of ?opts pick)), []),
       submit SelectBookOptions [] (get_conn d))"
    by (simp add: select_book_def f p Let_def)
  with mem show ?thesis by blast
qed

lemma select_member_some:
  assumes "is_table d ''members''" "members d \<noteq> []"
  shows "\<exists>m \<in> set (members d). \<exists>nm. select_member k d =
           (Inr (Some (m_id m, nm), []), submit SelectMemberOptions [] (get_conn d))"
proof -
  let ?df = "sort_key m_name (members d)"
  let ?opts = "map m_name ?df"
  have len: "length ?opts = length (members d)" by simp
  have ne: "?opts \<noteq> []" using assms(2) len by (metis length_0_conv)
  define pick where "pick = ?opts ! min k (length ?opts - 1)"
  have p: "selectbox ?opts k = Some pick" using ne by (simp add: selectbox_def pick_def)
  have "pick \<in> set ?opts" using p by (rule selectbox_member)
  then have "index_of ?opts pick < length ?opts" by (rule index_of_less)
  then have "index_of ?opts pick < length ?df" by simp
  then have "?df ! index_of ?opts pick \<in> set ?df" by (rule nth_mem)
  then have mem: "?df ! index_of ?opts pick \<in> set (members d)" by simp
  have f: "fetch_df SelectMemberOptions [] d = (Inr (), submit SelectMemberOptions [] (get_conn d))"
    using assms(1) by (simp add: fetch_df_tables run_def placeholders_def readable_table)
  have "select_member k d =
      (Inr (Some (m_id (?df ! index_of ?opts pick), ?opts ! index_of ?opts pick), []),
       submit SelectMemberOptions [] (get_conn d))"
    by (simp add: select_member_def f p Let_def)
  with mem show ?thesis by blast
qed

lemma issue_clicked:
  assumes "is_table d ''books''" "is_table d ''members''" "is_table d ''transactions''"
    "bid \<in> b_id ` set (books d)" "mid \<in> m_id ` set (members d)"
  shows "issue (Some (bid, bt)) (Some (mid, mn)) due True d =
     (Inr [StSuccess (''Issued **'' @ str_opt bt @ ''** to **'' @ str_opt mn @ ''** '' @ check_mark_button)],
      (submit InsertTransaction [SInt bid, SInt mid, bind_opt due] (get_conn d))
        \<lparr>transactions := transactions d @
           [\<lparr>t_id = next_rowid (seq_transactions d) (map t_id (transactions d)),
             book_id = Some bid, member_id = Some mid, issue_date = Some (today d),
             due_date = text_value (bind_opt due), return_date = None\<rparr>],
         seq_transactions := next_rowid (seq_transactions d) (map t_id (transactions d))\<rparr>)"
  using assms
  by (simp add: issue_def run_sql_def cursor_execute_def run_def placeholders_def
      insert_transaction_def writable_table parent_table Let_def)

lemma fetch_open_issues:
  "is_table d ''transactions'' \<Longrightarrow> is_table d ''books'' \<Longrightarrow> is_table d ''members'' \<Longrightarrow>
   fetch_df SelectOpenIssues [] d = (Inr (), submit SelectOpenIssues [] (get_conn d))"
  by (simp add: fetch_df_def cursor_execute_def run_def placeholders_def readable_table)

lemma fetch_history:
  "is_table d ''transactions'' \<Longrightarrow> is_table d ''books'' \<Longrightarrow> is_table d ''members'' \<Longrightarrow>
   fetch_df SelectHistory [] d = (Inr (), submit SelectHistory [] (get_conn d))"
  by (simp add: fetch_df_def cursor_execute_def run_def placeholders_def readable_table)

lemma mark_not_clicked: "mark_returned k False d = (Inr [], d)"
  by (simp add: mark_returned_def split: option.splits)

text \<open>
  Claim C8. Let books, members and transactions be tables, with at least one book and
  one member. Then the selection helpers return a book and a member, and a run of the
  Issue / Return page with a click on Issue and no due date shows the success message and
  leaves the transactions table with exactly one row more: its key is the next key, its
  book and member are the ones the helpers returned, its issue date is today, and its
  due date and return date are NULL. (\<open>select_book\<close> and \<open>select_member\<close> resolve the
  pick with \<open>options.index\<close>, that is to the first row that carries the picked label.)
\<close>

theorem issue_without_due_date:
  assumes "is_table d ''books''" "is_table d ''members''" "is_table d ''transactions''"
    and "books d \<noteq> []" "members d \<noteq> []"
  shows "\<exists>bid bt mid mn msg d'.
     fst (select_book book_pick d) = Inr (Some (bid, bt), []) \<and>
     fst (select_member member_pick (snd (select_book book_pick d))) = Inr (Some (mid, mn), []) \<and>
     page_issue_return book_pick member_pick None True txn_pick False d = (Inr [StSuccess msg], d') \<and>
     transactions d' = transactions d @
       [\<lparr>t_id = next_rowid (seq_transactions d) (map t_id (transactions d)),
         book_id = Some bid, member_id = Some mid, issue_date = Some (today d),
         due_date = None, return_date = None\<rparr>]"
proof -
  obtain b where b: "b \<in> set (books d)" "select_book book_pick d =
      (Inr (Some (b_id b, title b), []), submit SelectBookOptions [] (get_conn d))"
    using select_book_some [OF assms(1) assms(4)] by blast
  let ?d1 = "submit SelectBookOptions [] (get_conn d)"
  have t1: "is_table ?d1 ''members''" using assms(2) by simp
  have n1: "members ?d1 \<noteq> []" using assms(5) by simp
  obtain m nm where m0: "m \<in> set (members ?d1)" and m2: "select_member member_pick ?d1 =
      (Inr (Some (m_id m, nm), []), submit SelectMemberOptions [] (get_conn ?d1))"
    using select_member_some [OF t1 n1] by blast
  let ?d2 = "submit SelectMemberOptions [] (get_conn ?d1)"
  have t2: "is_table ?d2 ''books''" "is_table ?d2 ''members''" "is_table ?d2 ''transactions''"
    using assms(1-3) by simp_all
  have k2: "b_id b \<in> b_id ` set (books ?d2)" "m_id m \<in> m_id ` set (members ?d2)"
    using b(1) m0 by simp_all
  note i = issue_clicked [OF t2 k2, of "title b" nm None]
  let ?d3 = "(submit InsertTransaction [SInt (b_id b), SInt (m_id m), bind_opt None] (get_conn ?d2))
        \<lparr>transactions := transactions ?d2 @
           [\<lparr>t_id = next_rowid (seq_transactions ?d2) (map t_id (transactions ?d2)),
             book_id = Some (b_id b), member_id = Some (m_id m), issue_date = Some (today ?d2),
             due_date = text_value (bind_opt None), return_date = None\<rparr>],
         seq_transactions := next_rowid (seq_transactions ?d2) (map t_id (transactions ?d2))\<rparr>"
  have t3: "is_table ?d3 ''transactions''" "is_table ?d3 ''books''" "is_table ?d3 ''members''"
    using assms(1-3) by simp_all
  have f4: "fetch_df SelectOpenIssues [] ?d3 = (Inr (), submit SelectOpenIssues [] (get_conn ?d3))"
    using t3 by (rule fetch_open_issues)
  let ?d4 = "submit SelectOpenIssues [] (get_conn ?d3)"
  have f5: "fetch_df SelectHistory [] ?d4 = (Inr (), submit SelectHistory [] (get_conn ?d4))"
    using t3 by (intro fetch_history) simp_all
  have pg: "page_issue_return book_pick member_pick None True txn_pick False d =
      (Inr [StSuccess (''Issued **'' @ str_opt (title b) @ ''** to **'' @ str_opt nm @ ''** '' @ check_mark_button)],
       submit SelectHistory [] (get_conn ?d4))"
    unfolding page_issue_return_def b(2) and_then_simps prod.case m2 i f4 mark_not_clicked f5
    by simp
  show ?thesis
  proof (intro exI conjI)
    show "fst (select_book book_pick d) = Inr (Some (b_id b, title b), [])"
      by (simp add: b(2))
    show "fst (select_member member_pick (snd (select_book book_pick d))) =
        Inr (Some (m_id m, nm), [])"
      by (simp add: b(2) m2)
    show "page_issue_return book_pick member_pick None True txn_pick False d =
      (Inr [StSuccess (''Issued **'' @ str_opt (title b) @ ''** to **'' @ str_opt nm @ ''** '' @ check_mark_button)],
       submit SelectHistory [] (get_conn ?d4))"
      by (rule pg)
    show "transactions (submit SelectHistory [] (get_conn ?d4)) = transactions d @
       [\<lparr>t_id = next_rowid (seq_transactions d) (map t_id (transactions d)),
         book_id = Some (b_id b), member_id = Some (m_id m), issue_date = Some (today d),
         due_date = None, return_date = None\<rparr>]"
      by simp
  qed
qed

theorem issue_without_due_date_witness:
  "is_table library_db ''books'' \<and> is_table library_db ''members'' \<and>
   is_table library_db ''transactions'' \<and> books library_db \<noteq> [] \<and> members library_db \<noteq> [] \<and>
   (\<exists>bid bt mid mn msg d'.
     fst (select_book 0 library_db) = Inr (Some (bid, bt), []) \<and>
     fst (select_member 0 (snd (select_book 0 library_db))) = Inr (Some (mid, mn), []) \<and>
     page_issue_return 0 0 None True 0 False library_db = (Inr [StSuccess msg], d') \<and>
     transactions d' = transactions library_db @
       [\<lparr>t_id = next_rowid (seq_transactions library_db) (map t_id (transactions library_db)),
         book_id = Some bid, member_id = Some mid, issue_date = Some (today library_db),
         due_date = None, return_date = None\<rparr>])"
proof -
  have h: "is_table library_db ''books''" "is_table library_db ''members''"
    "is_table library_db ''transactions''" "books library_db \<noteq> []" "members library_db \<noteq> []"
    by (simp_all add: is_table_def find_table_def library_db_def lower_def lower_char_def)
  show ?thesis
    by (intro conjI h issue_without_due_date [OF h, of 0 0 0])
qed

section \<open>Seeding the default locations\<close>

lemma insert_location_step:
  assumes "is_table d ''locations''"
  shows "cursor_execute InsertOrIgnoreLocation [SText n, SText ds] d =
     (Inr (),
      if Some n \<in> l_name ` set (locations d)
      then (submit InsertOrIgnoreLocation [SText n, SText ds] d)
             \<lparr>seq_locations := next_rowid (seq_locations d) (map l_id (locations d))\<rparr>
      else (submit InsertOrIgnoreLocation [SText n, SText ds] d)
             \<lparr>locations := locations d @
                [\<lparr>l_id = next_rowid (seq_locations d) (map l_id (locations d)),
                  l_name = Some n, description = Some ds\<rparr>],
              seq_locations := next_rowid (seq_locations d) (map l_id (locations d))\<rparr>)"
  using assms
  by (auto simp: cursor_execute_def run_def placeholders_def insert_or_ignore_location_def
      writable_table list_ex_iff Let_def image_iff)

lemma insert_locations_present:
  "is_table d ''locations'' \<Longrightarrow> \<forall>p \<in> set xs. Some (fst p) \<in> l_name ` set (locations d) \<Longrightarrow>
   \<exists>d'. executemany InsertOrIgnoreLocation (map (\<lambda>p. [SText (fst p), SText (snd p)]) xs) d = (Inr (), d') \<and>
        locations d' = locations d \<and> master d' = master d"
proof (induction xs arbitrary: d)
  case Nil
  then show ?case by simp
next
  case (Cons p xs)
  let ?d1 = "(submit InsertOrIgnoreLocation [SText (fst p), SText (snd p)] d)
             \<lparr>seq_locations := next_rowid (seq_locations d) (map l_id (locations d))\<rparr>"
  have s: "cursor_execute InsertOrIgnoreLocation [SText (fst p), SText (snd p)] d = (Inr (), ?d1)"
    using Cons.prems by (simp add: insert_location_step)
  have "is_table ?d1 ''locations''" using Cons.prems(1) by simp
  moreover have "\<forall>p \<in> set xs. Some (fst p) \<in> l_name ` set (locations ?d1)"
    using Cons.prems(2) by simp
  ultimately obtain d' where
    "executemany InsertOrIgnoreLocation (map (\<lambda>p. [SText (fst p), SText (snd p)]) xs) ?d1 = (Inr (), d')"
    "locations d' = locations ?d1" "master d' = master ?d1"
    using Cons.IH by blast
  then show ?case using s by simp
qed

lemma insert_locations_fresh:
  "is_table d ''locations'' \<Longrightarrow> distinct (map fst xs) \<Longrightarrow>
   \<forall>p \<in> set xs. Some (fst p) \<notin> l_name ` set (locations d) \<Longrightarrow>
   \<exists>d'. executemany InsertOrIgnoreLocation (map (\<lambda>p. [SText (fst p), SText (snd p)]) xs) d = (Inr (), d') \<and>
        map l_name (locations d') = map l_name (locations d) @ map (\<lambda>p. Some (fst p)) xs \<and>
        map description (locations d') =
          map description (locations d) @ map (\<lambda>p. Some (snd p)) xs \<and>
        master d' = master d"
proof (induction xs arbitrary: d)
  case Nil
  then show ?case by simp
next
  case (Cons p xs)
  let ?d1 = "(submit InsertOrIgnoreLocation [SText (fst p), SText (snd p)] d)
             \<lparr>locations := locations d @
                [\<lparr>l_id = next_rowid (seq_locations d) (map l_id (locations d)),
                  l_name = Some (fst p), description = Some (snd p)\<rparr>],
              seq_locations := next_rowid (seq_locations d) (map l_id (locations d))\<rparr>"
  have s: "cursor_execute InsertOrIgnoreLocation [SText (fst p), SText (snd p)] d = (Inr (), ?d1)"
    using Cons.prems by (simp add: insert_location_step)
  have "is_table ?d1 ''locations''" using Cons.prems(1) by simp
  moreover have "distinct (map fst xs)" using Cons.prems(2) by simp
  moreover have "\<forall>q \<in> set xs. Some (fst q) \<notin> l_name ` set (locations ?d1)"
    using Cons.prems(2,3) by (auto simp: image_iff)
  ultimately obtain d' where
    "executemany InsertOrIgnoreLocation (map (\<lambda>p. [SText (fst p), SText (snd p)]) xs) ?d1 = (Inr (), d')"
    "map l_name (locations d') = map l_name (locations ?d1) @ map (\<lambda>p. Some (fst p)) xs"
    "map description (locations d') = map description (locations ?d1) @ map (\<lambda>p. Some (snd p)) xs"
    "master d' = master ?d1"
    using Cons.IH by blast
  then show ?case using s by simp
qed

lemma digit_char_index: "a < 10 \<Longrightarrow> index_of ''0123456789'' (digit_char a) = a"
proof -
  assume "a < 10"
  then have "a = 0 \<or> a = 1 \<or> a = 2 \<or> a = 3 \<or> a = 4 \<or> a = 5 \<or> a = 6 \<or> a = 7 \<or> a = 8 \<or> a = 9"
    by arith
  then show ?thesis by (auto simp: digit_char_def)
qed

lemma digit_char_inj: "a < 10 \<Longrightarrow> b < 10 \<Longrightarrow> digit_char a = digit_char b \<Longrightarrow> a = b"
  by (metis digit_char_index)

lemma str_nat_nonempty: "str_nat n \<noteq> []"
  by (subst str_nat.simps) simp

lemma str_nat_inj: "str_nat n = str_nat m \<Longrightarrow> n = m"
proof (induction n arbitrary: m rule: str_nat.induct)
  case (1 n)
  show ?case
  proof (cases "n < 10")
    case True
    show ?thesis
    proof (cases "m < 10")
      case m: True
      from "1.prems" True m have "digit_char n = digit_char m" by (simp add: str_nat.simps)
      then show ?thesis using True m by (rule_tac digit_char_inj)
    next
      case m: False
      from "1.prems" True m have "[digit_char n] = str_nat (m div 10) @ [digit_char (m mod 10)]"
        by (simp add: str_nat.simps)
      then have "str_nat (m div 10) = []" by simp
      then show ?thesis using str_nat_nonempty by blast
    qed
  next
    case False
    show ?thesis
    proof (cases "m < 10")
      case m: True
      from "1.prems" False m have "str_nat (n div 10) @ [digit_char (n mod 10)] = [digit_char m]"
        by (simp add: str_nat.simps)
      then have "str_nat (n div 10) = []" by simp
      then show ?thesis using str_nat_nonempty by blast
    next
      case m: False
      from "1.prems" False m
      have "str_nat (n div 10) @ [digit_char (n mod 10)] = str_nat (m div 10) @ [digit_char (m mod 10)]"
        by (simp add: str_nat.simps)
      then have e: "str_nat (n div 10) = str_nat (m div 10)" "digit_char (n mod 10) = digit_char (m mod 10)"
        by simp_all
      from "1.IH" [OF False e(1)] have d: "n div 10 = m div 10" .
      have "n mod 10 = m mod 10" using e(2) by (intro digit_char_inj) simp_all
      with d show ?thesis by (metis div_mult_mod_eq)
    qed
  qed
qed

lemma str_int_inj: "0 \<le> i \<Longrightarrow> 0 \<le> j \<Longrightarrow> str_int i = str_int j \<Longrightarrow> i = j"
  using str_nat_inj [of "nat i" "nat j"] by (simp add: str_int_def)

lemma compartments_distinct: "distinct (map (\<lambda>i. ''Compartment '' @ str_int i) [1..n])"
proof -
  have "inj_on (\<lambda>i. ''Compartment '' @ str_int i) (set [1..n])"
  proof (rule inj_onI)
    fix x y
    assume x: "x \<in> set [1..n]" and y: "y \<in> set [1..n]"
      and e: "''Compartment '' @ str_int x = ''Compartment '' @ str_int y"
    from x y have "0 \<le> x" "0 \<le> y" by auto
    moreover from e have "str_int x = str_int y" by simp
    ultimately show "x = y" by (rule str_int_inj)
  qed
  then show ?thesis by (simp add: distinct_map)
qed

lemma find_append:
  "find P (xs @ ys) = (case find P xs of None \<Rightarrow> find P ys | Some x \<Rightarrow> Some x)"
  by (induction xs) auto

lemma is_table_master: "master a = master b \<Longrightarrow> is_table a n = is_table b n"
  by (simp add: is_table_def)

lemma rollback_success [simp]: "rollback saved (Inr x, d) = (Inr x, d)"
  by (simp add: rollback_def)

lemma create_locations_existing:
  "is_table d ''locations'' \<Longrightarrow>
   cursor_execute CreateLocations [] (get_conn d) = (Inr (), submit CreateLocations [] (get_conn d))"
  by (auto simp: cursor_execute_def run_def placeholders_def create_locations_def
      create_table_if_not_exists_def is_table_def split: option.splits)

lemma create_locations_step:
  assumes "(is_table d ''locations'' \<and> locations d = []) \<or>
           (find_table (master d) ''locations'' = None \<and> find_index (master d) ''locations'' = None)"
  shows "\<exists>d1. cursor_execute CreateLocations [] (get_conn d) = (Inr (), d1) \<and>
              is_table d1 ''locations'' \<and> locations d1 = []"
  using assms
proof
  assume "is_table d ''locations'' \<and> locations d = []"
  then show ?thesis by (simp add: create_locations_existing)
next
  assume "find_table (master d) ''locations'' = None \<and> find_index (master d) ''locations'' = None"
  then show ?thesis
    by (simp add: cursor_execute_def run_def placeholders_def create_locations_def
        create_table_if_not_exists_def is_table_def find_table_def find_append)
qed

text \<open>
  Claim C5. Start from a store whose locations table is empty or does not exist yet
  (no view and no index has its name). Then \<open>ensure_default_locations n\<close> returns
  normally both times it is run, and after the second run the table holds exactly
  \<open>n\<close> rows, named Compartment 1 to Compartment \<open>n\<close> in this order and all different:
  the second run inserts nothing, the rows are those of the first run. For \<open>n = 45\<close>
  these are 45 rows, not 90. (The AUTOINCREMENT counter does advance in the second run:
  SQLite draws a key for a row before \<open>OR IGNORE\<close> discards it.)
\<close>

theorem seeding_twice:
  assumes "(is_table d ''locations'' \<and> locations d = []) \<or>
           (find_table (master d) ''locations'' = None \<and> find_index (master d) ''locations'' = None)"
  shows "fst (ensure_default_locations n d) = Inr () \<and>
     fst (ensure_default_locations n (snd (ensure_default_locations n d))) = Inr () \<and>
     map l_name (locations (snd (ensure_default_locations n (snd (ensure_default_locations n d))))) =
       map (\<lambda>i. Some (''Compartment '' @ str_int i)) [1..n] \<and>
     distinct (map l_name (locations (snd (ensure_default_locations n (snd (ensure_default_locations n d)))))) \<and>
     length (locations (snd (ensure_default_locations n (snd (ensure_default_locations n d))))) = nat n \<and>
     locations (snd (ensure_default_locations n (snd (ensure_default_locations n d)))) =
       locations (snd (ensure_default_locations n d))"
proof -
  let ?xs = "map (\<lambda>i. (''Compartment '' @ str_int i, ''Shelf compartment #'' @ str_int i)) [1..n]"
  have rows: "map compartment [1..n] = map (\<lambda>p. [SText (fst p), SText (snd p)]) ?xs"
    by (simp add: compartment_def comp_def)
  have names: "map fst ?xs = map (\<lambda>i. ''Compartment '' @ str_int i) [1..n]"
    by (simp add: comp_def)
  have somes: "map (\<lambda>p. Some (fst p)) ?xs = map (\<lambda>i. Some (''Compartment '' @ str_int i)) [1..n]"
    by (simp add: comp_def)
  obtain d1 where d1: "cursor_execute CreateLocations [] (get_conn d) = (Inr (), d1)"
      "is_table d1 ''locations''" "locations d1 = []"
    using create_locations_step [OF assms] by blast
  have dist: "distinct (map fst ?xs)" unfolding names by (rule compartments_distinct)
  have fresh: "\<forall>p \<in> set ?xs. Some (fst p) \<notin> l_name ` set (locations d1)"
    by (simp add: d1(3))
  obtain d2 where d2: "executemany InsertOrIgnoreLocation (map compartment [1..n]) d1 = (Inr (), d2)"
      "map l_name (locations d2) = map l_name (locations d1) @ map (\<lambda>p. Some (fst p)) ?xs"
      "master d2 = master d1"
    using insert_locations_fresh [OF d1(2) dist fresh] unfolding rows by blast
  have once: "ensure_default_locations n d = (Inr (), d2)"
    by (simp add: ensure_default_locations_def d1(1) d2(1))
  have n2: "map l_name (locations d2) = map (\<lambda>i. Some (''Compartment '' @ str_int i)) [1..n]"
    using d2(2) by (simp add: d1(3) somes)
  have t2: "is_table d2 ''locations''" using d1(2) is_table_master [OF d2(3)] by simp
  let ?d3 = "submit CreateLocations [] (get_conn d2)"
  have c3: "cursor_execute CreateLocations [] (get_conn d2) = (Inr (), ?d3)"
    using t2 by (rule create_locations_existing)
  have t3: "is_table ?d3 ''locations''" using t2 by simp
  have "set (map (\<lambda>p. Some (fst p)) ?xs) \<subseteq> set (map l_name (locations ?d3))"
    by (simp add: n2 somes)
  then have present: "\<forall>p \<in> set ?xs. Some (fst p) \<in> l_name ` set (locations ?d3)"
    by auto
  obtain d4 where d4: "executemany InsertOrIgnoreLocation (map compartment [1..n]) ?d3 = (Inr (), d4)"
      "locations d4 = locations ?d3"
    using insert_locations_present [OF t3 present] unfolding rows by blast
  have twice: "ensure_default_locations n d2 = (Inr (), d4)"
    by (simp add: ensure_default_locations_def c3 d4(1))
  have l4: "locations d4 = locations d2" using d4(2) by simp
  have len: "length (locations d2) = nat n"
    using arg_cong [OF n2, of length] by simp
  have "distinct (map Some (map (\<lambda>i. ''Compartment '' @ str_int i) [1..n]))"
  proof (rule distinct_map [THEN iffD2], rule conjI)
    show "distinct (map (\<lambda>i. ''Compartment '' @ str_int i) [1..n])"
      by (rule compartments_distinct)
    show "inj_on Some (set (map (\<lambda>i. ''Compartment '' @ str_int i) [1..n]))"
      by (rule inj_onI) simp
  qed
  then have dis: "distinct (map l_name (locations d2))"
    unfolding n2 by (simp only: map_map o_def)
  show ?thesis
    unfolding once twice fst_conv snd_conv l4
    using n2 len dis by (intro conjI refl)
qed

theorem seeding_twice_witness:
  "((is_table fresh_db ''locations'' \<and> locations fresh_db = []) \<or>
    (find_table (master fresh_db) ''locations'' = None \<and>
     find_index (master fresh_db) ''locations'' = None)) \<and>
   fst (ensure_default_locations 45 fresh_db) = Inr () \<and>
   fst (ensure_default_locations 45 (snd (ensure_default_locations 45 fresh_db))) = Inr () \<and>
   length (locations (snd (ensure_default_locations 45 (snd (ensure_default_locations 45 fresh_db))))) = 45 \<and>
   distinct (map l_name (locations (snd (ensure_default_locations 45 (snd (ensure_default_locations 45 fresh_db))))))"
proof -
  have h: "(is_table fresh_db ''locations'' \<and> locations fresh_db = []) \<or>
    (find_table (master fresh_db) ''locations'' = None \<and>
     find_index (master fresh_db) ''locations'' = None)"
    by (simp add: fresh_db_def find_table_def find_index_def)
  note r = seeding_twice [OF h, of 45]
  have len: "length (locations (snd (ensure_default_locations 45 (snd (ensure_default_locations 45 fresh_db))))) = 45"
    using r [THEN conjunct2, THEN conjunct2, THEN conjunct2, THEN conjunct2, THEN conjunct1] by simp
  show ?thesis
    by (intro conjI h len r [THEN conjunct1] r [THEN conjunct2, THEN conjunct1]
        r [THEN conjunct2, THEN conjunct2, THEN conjunct2, THEN conjunct1])
qed

section \<open>Importing books twice\<close>

lemma books_unique_fields [simp]:
  "books_unique (submit s ps d) = books_unique d"
  "books_unique (get_conn d) = books_unique d"
  "books_unique (d\<lparr>books := bs\<rparr>) = books_unique d"
  "books_unique (d\<lparr>seq_books := i\<rparr>) = books_unique d"
  by (simp_all add: books_unique_def)

lemma books_unique_master: "master a = master b \<Longrightarrow> books_unique a = books_unique b"
  by (simp add: books_unique_def)

lemma insert_book_step:
  assumes "is_table d ''books''"
  shows "cursor_execute InsertOrIgnoreBook [SText t, SText a, SText g, SText l] d =
     (Inr (),
      if books_unique d \<and> (\<exists>b \<in> set (books d). title b = Some t \<and> author b = Some a)
      then (submit InsertOrIgnoreBook [SText t, SText a, SText g, SText l] d)
             \<lparr>seq_books := next_rowid (seq_books d) (map b_id (books d))\<rparr>
      else (submit InsertOrIgnoreBook [SText t, SText a, SText g, SText l] d)
             \<lparr>books := books d @
                [\<lparr>b_id = next_rowid (seq_books d) (map b_id (books d)), title = Some t,
                  author = Some a, genre = Some g, default_location = Some l, tags = None,
                  book_notes = None\<rparr>],
              seq_books := next_rowid (seq_books d) (map b_id (books d))\<rparr>)"
  using assms
  by (auto simp: cursor_execute_def run_def placeholders_def insert_book_def book_conflict_def
      writable_table list_ex_iff Let_def)

lemma insert_books_present:
  "is_table d ''books'' \<Longrightarrow> books_unique d \<Longrightarrow>
   \<forall>p \<in> set xs. \<exists>b \<in> set (books d). title b = Some (fst p) \<and> author b = Some (fst (snd p)) \<Longrightarrow>
   \<exists>d'. executemany InsertOrIgnoreBook
          (map (\<lambda>p. [SText (fst p), SText (fst (snd p)), SText (fst (snd (snd p))),
                      SText (snd (snd (snd p)))]) xs) d = (Inr (), d') \<and>
        books d' = books d \<and> master d' = master d"
proof (induction xs arbitrary: d)
  case Nil
  then show ?case by simp
next
  case (Cons p xs)
  let ?ps = "[SText (fst p), SText (fst (snd p)), SText (fst (snd (snd p))), SText (snd (snd (snd p)))]"
  let ?d1 = "(submit InsertOrIgnoreBook ?ps d)
             \<lparr>seq_books := next_rowid (seq_books d) (map b_id (books d))\<rparr>"
  have s: "cursor_execute InsertOrIgnoreBook ?ps d = (Inr (), ?d1)"
    using Cons.prems by (simp add: insert_book_step)
  have "is_table ?d1 ''books''" using Cons.prems(1) by simp
  moreover have "books_unique ?d1" using Cons.prems(2) by simp
  moreover have "\<forall>p \<in> set xs. \<exists>b \<in> set (books ?d1). title b = Some (fst p) \<and> author b = Some (fst (snd p))"
    using Cons.prems(3) by simp
  ultimately obtain d' where
    "executemany InsertOrIgnoreBook
          (map (\<lambda>p. [SText (fst p), SText (fst (snd p)), SText (fst (snd (snd p))),
                      SText (snd (snd (snd p)))]) xs) ?d1 = (Inr (), d')"
    "books d' = books ?d1" "master d' = master ?d1"
    using Cons.IH by blast
  then show ?case using s by simp
qed

lemma insert_books_any:
  "is_table d ''books'' \<Longrightarrow> books_unique d \<Longrightarrow>
   \<exists>d' new. executemany InsertOrIgnoreBook
          (map (\<lambda>p. [SText (fst p), SText (fst (snd p)), SText (fst (snd (snd p))),
                      SText (snd (snd (snd p)))]) xs) d = (Inr (), d') \<and>
        books d' = books d @ new \<and> master d' = master d \<and>
        (\<forall>p \<in> set xs. \<exists>b \<in> set (books d'). title b = Some (fst p) \<and> author b = Some (fst (snd p)))"
proof (induction xs arbitrary: d)
  case Nil
  then show ?case by simp
next
  case (Cons p xs)
  let ?ps = "[SText (fst p), SText (fst (snd p)), SText (fst (snd (snd p))), SText (snd (snd (snd p)))]"
  define d1 where "d1 =
     (if books_unique d \<and> (\<exists>b \<in> set (books d). title b = Some (fst p) \<and> author b = Some (fst (snd p)))
      then (submit InsertOrIgnoreBook ?ps d)
             \<lparr>seq_books := next_rowid (seq_books d) (map b_id (books d))\<rparr>
      else (submit InsertOrIgnoreBook ?ps d)
             \<lparr>books := books d @
                [\<lparr>b_id = next_rowid (seq_books d) (map b_id (books d)), title = Some (fst p),
                  author = Some (fst (snd p)), genre = Some (fst (snd (snd p))),
                  default_location = Some (snd (snd (snd p))), tags = None,
                  book_notes = None\<rparr>],
              seq_books := next_rowid (seq_books d) (map b_id (books d))\<rparr>)"
  have s: "cursor_execute InsertOrIgnoreBook ?ps d = (Inr (), d1)"
    unfolding d1_def by (rule insert_book_step [OF Cons.prems(1)])
  have m1: "master d1 = master d" by (simp add: d1_def)
  have "\<exists>n1. books d1 = books d @ n1" by (simp add: d1_def)
  then obtain n1 where b1: "books d1 = books d @ n1" ..
  have p1: "\<exists>b \<in> set (books d1). title b = Some (fst p) \<and> author b = Some (fst (snd p))"
    using Cons.prems(2) by (auto simp: d1_def)
  have t1: "is_table d1 ''books''" using Cons.prems(1) is_table_master [OF m1] by simp
  have u1: "books_unique d1" using Cons.prems(2) books_unique_master [OF m1] by simp
  obtain d' new where r:
    "executemany InsertOrIgnoreBook
          (map (\<lambda>p. [SText (fst p), SText (fst (snd p)), SText (fst (snd (snd p))),
                      SText (snd (snd (snd p)))]) xs) d1 = (Inr (), d')"
    "books d' = books d1 @ new" "master d' = master d1"
    "\<forall>p \<in> set xs. \<exists>b \<in> set (books d'). title b = Some (fst p) \<and> author b = Some (fst (snd p))"
    using Cons.IH [OF t1 u1] by blast
  have "\<exists>b \<in> set (books d'). title b = Some (fst p) \<and> author b = Some (fst (snd p))"
    using p1 r(2) by auto
  with r show ?case using s b1 m1 by simp
qed

lemma lower_books [simp]: "lower ''books'' = ''books''"
  by (simp add: lower_def lower_char_def)

lemma find_table_Some:
  "find_table ms n = Some ob \<Longrightarrow> (otype ob = Table \<or> otype ob = View) \<and> lower (oname ob) = lower n"
  by (auto simp: find_table_def find_Some_iff)

lemma find_table_append_index [simp]: "find_table (ms @ [Obj Index a b]) n = find_table ms n"
  by (simp add: find_table_def find_append split: option.splits)

lemma find_index_append_new:
  "find_index ms ix = None \<Longrightarrow> find_index (ms @ [Obj Index ix t]) ix = Some (Obj Index ix t)"
  by (simp add: find_index_def find_append)

lemma unique_index_result:
  assumes "create_books_unique_index d = Inr d'"
    and "find_index (master d) ''idx_books_title_author'' = None \<or> books_unique d"
  shows "is_table d' ''books'' \<and> books_unique d' \<and> books d' = books d \<and>
        find_table (master d') ''idx_books_title_author'' = None \<and>
        find_index (master d') ''idx_books_title_author'' \<noteq> None"
proof -
  from assms(1) obtain ob where ob: "find_table (master d) ''books'' = Some ob"
    by (auto simp: create_books_unique_index_def create_index_if_not_exists_def
        split: option.splits)
  from assms(1) ob have nv: "otype ob \<noteq> View"
    and ft: "find_table (master d) ''idx_books_title_author'' = None"
    by (auto simp: create_books_unique_index_def create_index_if_not_exists_def
        split: if_splits)
  from find_table_Some [OF ob] nv have tb: "otype ob = Table" and nm: "lower (oname ob) = ''books''"
    by auto
  have t: "is_table d ''books''" using ob tb by (simp add: is_table_def)
  show ?thesis
  proof (cases "find_index (master d) ''idx_books_title_author'' = None")
    case True
    with assms(1) ob nv ft
    have d': "d' = d\<lparr>master := master d @ [Obj Index ''idx_books_title_author'' (oname ob)]\<rparr>"
      by (auto simp: create_books_unique_index_def create_index_if_not_exists_def
          split: if_splits)
    show ?thesis
      using t ft nm True
      by (simp add: d' is_table_def books_unique_def find_index_append_new)
  next
    case False
    with assms(1) ob nv ft have d': "d' = d"
      by (auto simp: create_books_unique_index_def create_index_if_not_exists_def
          split: if_splits)
    show ?thesis
      using t ft False assms(2) by (auto simp: d')
  qed
qed

lemma unique_index_again:
  "is_table d ''books'' \<Longrightarrow> find_table (master d) ''idx_books_title_author'' = None \<Longrightarrow>
   find_index (master d) ''idx_books_title_author'' \<noteq> None \<Longrightarrow>
   create_books_unique_index d = Inr d"
  by (auto simp: create_books_unique_index_def create_index_if_not_exists_def is_table_def
      split: option.splits)

lemma unique_index_error:
  "create_books_unique_index d = Inl e \<Longrightarrow> master d2 = master d \<Longrightarrow> books d2 = books d \<Longrightarrow>
   create_books_unique_index d2 = Inl e"
  by (auto simp: create_books_unique_index_def split: sum.splits prod.splits if_splits)

lemma execute_unique_index:
  "cursor_execute CreateBooksUniqueIndex [] d =
     (case create_books_unique_index (submit CreateBooksUniqueIndex [] d) of
        Inl e \<Rightarrow> (Inl e, submit CreateBooksUniqueIndex [] d)
      | Inr d' \<Rightarrow> (Inr (), d'))"
  by (simp add: cursor_execute_def run_def placeholders_def)

text \<open>
  Claim C4. Let the name \<open>idx_books_title_author\<close> be free in the store or be that of
  the unique index on \<open>books\<close> (the index this import creates). Then for every uploaded
  file, importing it a second time leaves the rows of \<open>books\<close> as the first import
  left them, and so their number: when the file lacks a column both imports are
  refused, when the index cannot be created (no table, or rows that already share title
  and author) both imports fail there with the table untouched, and otherwise every row
  of the file meets a row with its title and author in the second import and is ignored.
\<close>

theorem import_books_twice:
  assumes "find_index (master d) ''idx_books_title_author'' = None \<or> books_unique d"
  shows "books (snd (import_books series_str df (snd (import_books series_str df d)))) =
           books (snd (import_books series_str df d)) \<and>
         length (books (snd (import_books series_str df (snd (import_books series_str df d))))) =
           length (books (snd (import_books series_str df d)))"
proof (cases "has_columns df [''title'', ''author'', ''genre'', ''default_location'']")
  case False
  then have "\<And>d. import_books series_str df d =
      (Inr [StError ''Books CSV missing required columns.''], d)"
    by (simp add: import_books_def)
  then show ?thesis by simp
next
  case True
  define rows where
    "rows = import_rows series_str df [''title'', ''author'', ''genre'', ''default_location'']"
  define cs where "cs = map (renamed (df_columns df)) (df_columns df)"
  define xs where "xs = map (\<lambda>r.
      (strip (get_str series_str cs r ''title''), strip (get_str series_str cs r ''author''),
       strip (get_str series_str cs r ''genre''),
       strip (get_str series_str cs r ''default_location''))) (df_rows df)"
  have rows_eq: "rows = map (\<lambda>p. [SText (fst p), SText (fst (snd p)), SText (fst (snd (snd p))),
                      SText (snd (snd (snd p)))]) xs"
    by (simp add: rows_def xs_def cs_def import_rows_def Let_def comp_def)
  define msg where "msg = [StSuccess (''Imported '' @ str_nat (length rows) @
                           '' books (existing titles skipped).'')]"
  have imp: "\<And>d. import_books series_str df d =
      and_then (cursor_execute CreateBooksUniqueIndex [] (get_conn d)) (\<lambda>_ d1.
        and_then (rollback d1 (executemany InsertOrIgnoreBook rows d1)) (\<lambda>_ d2. (Inr msg, d2)))"
    using True by (simp add: import_books_def rows_def msg_def Let_def)
  let ?D = "submit CreateBooksUniqueIndex [] (get_conn d)"
  show ?thesis
  proof (cases "create_books_unique_index ?D")
    case (Inl e)
    have one: "import_books series_str df d = (Inl e, ?D)"
      by (simp add: imp execute_unique_index Inl)
    let ?D2 = "submit CreateBooksUniqueIndex [] (get_conn ?D)"
    have "create_books_unique_index ?D2 = Inl e"
      by (rule unique_index_error [OF Inl]) simp_all
    then have two: "import_books series_str df ?D = (Inl e, ?D2)"
      by (simp add: imp execute_unique_index)
    show ?thesis by (simp add: one two)
  next
    case (Inr d1)
    have hyp: "find_index (master ?D) ''idx_books_title_author'' = None \<or> books_unique ?D"
      using assms by simp
    note f = unique_index_result [OF Inr hyp]
    have f1: "is_table d1 ''books''" and f2: "books_unique d1"
      and f4: "find_table (master d1) ''idx_books_title_author'' = None"
      and f5: "find_index (master d1) ''idx_books_title_author'' \<noteq> None"
      using f by simp_all
    obtain d2 new where d2: "executemany InsertOrIgnoreBook rows d1 = (Inr (), d2)"
      "books d2 = books d1 @ new" "master d2 = master d1"
      "\<forall>p \<in> set xs. \<exists>b \<in> set (books d2). title b = Some (fst p) \<and> author b = Some (fst (snd p))"
      using insert_books_any [OF f1 f2, of xs] unfolding rows_eq by blast
    have one: "import_books series_str df d = (Inr msg, d2)"
      by (simp add: imp execute_unique_index Inr d2(1))
    let ?D2 = "submit CreateBooksUniqueIndex [] (get_conn d2)"
    have m2: "master ?D2 = master d1" using d2(3) by simp
    have t2: "is_table ?D2 ''books''" using f1 is_table_master [OF m2] by simp
    have u2: "books_unique ?D2" using f2 books_unique_master [OF m2] by simp
    have c2: "create_books_unique_index ?D2 = Inr ?D2"
      using t2 f4 f5 by (intro unique_index_again) (simp_all add: d2(3))
    have pres: "\<forall>p \<in> set xs. \<exists>b \<in> set (books ?D2). title b = Some (fst p) \<and> author b = Some (fst (snd p))"
      using d2(4) by simp
    obtain d4 where d4: "executemany InsertOrIgnoreBook rows ?D2 = (Inr (), d4)"
      "books d4 = books ?D2"
      using insert_books_present [OF t2 u2 pres] unfolding rows_eq by blast
    have two: "import_books series_str df d2 = (Inr msg, d4)"
      by (simp add: imp execute_unique_index c2 d4(1))
    show ?thesis using d4(2) by (simp add: one two)
  qed
qed

theorem import_books_twice_witness:
  "(find_index (master library_db) ''idx_books_title_author'' = None \<or> books_unique library_db) \<and>
   length (books (snd (import_books (\<lambda>_. [])
       (DataFrame [''Title'', ''Author'', ''GENRE'', ''default_location'']
          [[PStr ''Emma'', PStr ''Austen'', PNaN, PStr ''Compartment 1''],
           [PStr ''Emma'', PStr ''Austen'', PStr ''Novel'', PNaN]])
       (snd (import_books (\<lambda>_. [])
          (DataFrame [''Title'', ''Author'', ''GENRE'', ''default_location'']
             [[PStr ''Emma'', PStr ''Austen'', PNaN, PStr ''Compartment 1''],
              [PStr ''Emma'', PStr ''Austen'', PStr ''Novel'', PNaN]])
          library_db))))) =
   length (books (snd (import_books (\<lambda>_. [])
       (DataFrame [''Title'', ''Author'', ''GENRE'', ''default_location'']
          [[PStr ''Emma'', PStr ''Austen'', PNaN, PStr ''Compartment 1''],
           [PStr ''Emma'', PStr ''Austen'', PStr ''Novel'', PNaN]])
       library_db)))"
proof -
  have h: "find_index (master library_db) ''idx_books_title_author'' = None \<or>
      books_unique library_db"
    by (simp add: library_db_def find_index_def lower_def lower_char_def)
  show ?thesis
    by (intro conjI h import_books_twice [OF h, THEN conjunct2])
qed

section \<open>Export and import of books\<close>

lemma export_dune:
  "export_books dune_db =
     (Inr [StDownload ''books.csv''
        [[''id'', ''title'', ''author'', ''genre'', ''default_location'', ''tags'', ''notes''],
         [''1'', ''Dune'', [], [], [], [], []]]],
      submit ExportBooks [] (get_conn dune_db))"
  by (simp add: export_books_def fetch_df_def cursor_execute_def run_def placeholders_def
      readable_def find_table_def lower_def lower_char_def dune_db_def get_conn_def submit_def
      to_csv_def books_frame_def str_int_def str_nat.simps digit_char_def)

lemma read_dune:
  "read_csv [[''id'', ''title'', ''author'', ''genre'', ''default_location'', ''tags'', ''notes''],
             [''1'', ''Dune'', [], [], [], [], []]] =
   Some (DataFrame [''id'', ''title'', ''author'', ''genre'', ''default_location'', ''tags'', ''notes'']
           [[PStr ''1'', PStr ''Dune'', PNaN, PNaN, PNaN, PNaN, PNaN]])"
  by (simp add: read_csv_def na_values_def)

lemma strip_dune: "strip ''Dune'' = ''Dune''" and strip_nan: "strip ''nan'' = ''nan''"
  by (simp_all add: strip_def py_whitespace_def lstrip_seqs.simps)

lemma rows_dune:
  "import_rows (\<lambda>_. [])
     (DataFrame [''id'', ''title'', ''author'', ''genre'', ''default_location'', ''tags'', ''notes'']
           [[PStr ''1'', PStr ''Dune'', PNaN, PNaN, PNaN, PNaN, PNaN]])
     [''title'', ''author'', ''genre'', ''default_location''] =
   [[SText ''Dune'', SText ''nan'', SText ''nan'', SText ''nan'']]"
  by (simp add: import_rows_def renamed_def lower_def lower_char_def get_str_def row_get_def
      strip_dune strip_nan Let_def)

lemma index_dune:
  "cursor_execute CreateBooksUniqueIndex [] (get_conn (submit ExportBooks [] (get_conn dune_db))) =
     (Inr (),
      (submit CreateBooksUniqueIndex [] (get_conn (submit ExportBooks [] (get_conn dune_db))))
        \<lparr>master := master dune_db @ [Obj Index ''idx_books_title_author'' ''books'']\<rparr>)"
  by (simp add: cursor_execute_def run_def placeholders_def create_books_unique_index_def
      create_index_if_not_exists_def find_table_def find_index_def lower_def lower_char_def
      dune_db_def get_conn_def submit_def)

lemma insert_dune:
  assumes "master d = master dune_db @ [Obj Index ''idx_books_title_author'' ''books'']"
    and "books d = books dune_db" and "seq_books d = seq_books dune_db"
  shows "fst (executemany InsertOrIgnoreBook
            [[SText ''Dune'', SText ''nan'', SText ''nan'', SText ''nan'']] d) = Inr ()"
    and "books (snd (executemany InsertOrIgnoreBook
            [[SText ''Dune'', SText ''nan'', SText ''nan'', SText ''nan'']] d)) =
      [\<lparr>b_id = 1, title = Some ''Dune'', author = Some [], genre = Some [],
        default_location = Some [], tags = None, book_notes = None\<rparr>,
       \<lparr>b_id = 2, title = Some ''Dune'', author = Some ''nan'', genre = Some ''nan'',
        default_location = Some ''nan'', tags = None, book_notes = None\<rparr>]"
  using assms
  by (simp_all add: cursor_execute_def run_def placeholders_def insert_book_def writable_def
      book_conflict_def books_unique_def find_table_def find_index_def find_append lower_def
      lower_char_def next_rowid_def dune_db_def Let_def)

text \<open>
  Claim C3, at one store: the code does not give the round trip the claim states. On
  \<open>dune_db\<close>, whose one book has an empty author, genre and default location, the export
  writes these three as empty fields; \<open>read_csv\<close> reads an empty field as NaN; the
  import takes \<open>str\<close> of each cell, which is \<open>nan\<close> for NaN; and the row (Dune, nan, nan, nan)
  meets no row with its title and author and is inserted. After the export and the import
  of the exported file the table has two rows where it had one.
\<close>

theorem export_import_adds_nan_row:
  "fst (export_books dune_db) =
     Inr [StDownload ''books.csv''
        [[''id'', ''title'', ''author'', ''genre'', ''default_location'', ''tags'', ''notes''],
         [''1'', ''Dune'', [], [], [], [], []]]] \<and>
   read_csv [[''id'', ''title'', ''author'', ''genre'', ''default_location'', ''tags'', ''notes''],
             [''1'', ''Dune'', [], [], [], [], []]] =
     Some (DataFrame [''id'', ''title'', ''author'', ''genre'', ''default_location'', ''tags'', ''notes'']
             [[PStr ''1'', PStr ''Dune'', PNaN, PNaN, PNaN, PNaN, PNaN]]) \<and>
   fst (import_books (\<lambda>_. [])
          (DataFrame [''id'', ''title'', ''author'', ''genre'', ''default_location'', ''tags'', ''notes'']
             [[PStr ''1'', PStr ''Dune'', PNaN, PNaN, PNaN, PNaN, PNaN]])
          (snd (export_books dune_db))) =
     Inr [StSuccess ''Imported 1 books (existing titles skipped).''] \<and>
   books (snd (import_books (\<lambda>_. [])
          (DataFrame [''id'', ''title'', ''author'', ''genre'', ''default_location'', ''tags'', ''notes'']
             [[PStr ''1'', PStr ''Dune'', PNaN, PNaN, PNaN, PNaN, PNaN]])
          (snd (export_books dune_db)))) =
     [\<lparr>b_id = 1, title = Some ''Dune'', author = Some [], genre = Some [],
       default_location = Some [], tags = None, book_notes = None\<rparr>,
      \<lparr>b_id = 2, title = Some ''Dune'', author = Some ''nan'', genre = Some ''nan'',
       default_location = Some ''nan'', tags = None, book_notes = None\<rparr>]"
proof -
  let ?df = "DataFrame [''id'', ''title'', ''author'', ''genre'', ''default_location'', ''tags'', ''notes'']
             [[PStr ''1'', PStr ''Dune'', PNaN, PNaN, PNaN, PNaN, PNaN]]"
  let ?d0 = "submit ExportBooks [] (get_conn dune_db)"
  let ?d1 = "(submit CreateBooksUniqueIndex [] (get_conn ?d0))
        \<lparr>master := master dune_db @ [Obj Index ''idx_books_title_author'' ''books'']\<rparr>"
  let ?rows = "[[SText ''Dune'', SText ''nan'', SText ''nan'', SText ''nan'']]"
  have hc: "has_columns ?df [''title'', ''author'', ''genre'', ''default_location'']"
    by (simp add: has_columns_def lower_def lower_char_def)
  have i1: "fst (executemany InsertOrIgnoreBook ?rows ?d1) = Inr ()"
    by (rule insert_dune) simp_all
  have i2: "books (snd (executemany InsertOrIgnoreBook ?rows ?d1)) =
     [\<lparr>b_id = 1, title = Some ''Dune'', author = Some [], genre = Some [],
       default_location = Some [], tags = None, book_notes = None\<rparr>,
      \<lparr>b_id = 2, title = Some ''Dune'', author = Some ''nan'', genre = Some ''nan'',
       default_location = Some ''nan'', tags = None, book_notes = None\<rparr>]"
    by (rule insert_dune) simp_all
  obtain d2 where d2: "executemany InsertOrIgnoreBook ?rows ?d1 = (Inr (), d2)"
    using i1 by (cases "executemany InsertOrIgnoreBook ?rows ?d1") simp
  have imp: "import_books (\<lambda>_. []) ?df ?d0 =
      (Inr [StSuccess ''Imported 1 books (existing titles skipped).''], d2)"
    using hc
    by (simp add: import_books_def rows_dune index_dune d2 Let_def str_nat.simps digit_char_def
        del: executemany.simps)
  have b2: "books d2 = books (snd (executemany InsertOrIgnoreBook ?rows ?d1))"
    unfolding d2 by simp
  show ?thesis
    unfolding export_dune read_dune fst_conv snd_conv imp b2 i2
    by (intro conjI refl)
qed

section \<open>Schema initialization\<close>



















lemma lower_names [simp]:
  "lower ''members'' = ''members''"
  "lower ''locations'' = ''locations''"
  "lower ''transactions'' = ''transactions''"
  by (simp_all add: lower_def lower_char_def)

























end
